theory Spec2Isabelle
  imports Complex_Main
begin

section \<open>Python values used by the bot\<close>

text \<open>
  The calendar bot of \<^verbatim>\<open>Lab4/Bot_Test\<close> is embedded: the message handlers of
  \<^verbatim>\<open>handlers.py\<close>, the calendar client of \<^verbatim>\<open>calendar_client.py\<close> and the response
  schema of \<^verbatim>\<open>schema.py\<close>.

  A Python \<^verbatim>\<open>str\<close> is a sequence of Unicode code points, so it is a list of naturals:
  \<^verbatim>\<open>len\<close>, slicing and \<^verbatim>\<open>in\<close> then count what Python counts. Every text literal of the
  source is a named constant below, given as its code points, with the source line it is
  taken from.
\<close>

type_synonym pystr = "nat list"

datatype py_error =
  IndexError | KeyError | ValueError | OverflowError | ZoneInfoNotFoundError | ValidationError

text \<open>\<^verbatim>\<open>str.isspace\<close> on one code point: the white space that \<^verbatim>\<open>str.strip()\<close> removes.\<close>

definition py_isspace :: "nat \<Rightarrow> bool" where
  "py_isspace c \<longleftrightarrow>
     (9 \<le> c \<and> c \<le> 13) \<or> (28 \<le> c \<and> c \<le> 32) \<or> c = 133 \<or> c = 160 \<or> c = 5760 \<or>
     (8192 \<le> c \<and> c \<le> 8202) \<or> c = 8232 \<or> c = 8233 \<or> c = 8239 \<or> c = 8287 \<or> c = 12288"

definition py_strip :: "pystr \<Rightarrow> pystr" where
  "py_strip s = rev (dropWhile py_isspace (rev (dropWhile py_isspace s)))"

text \<open>
  An \<^verbatim>\<open>Optional[str]\<close> in a condition (\<^verbatim>\<open>if slots.title:\<close>) is true when it is neither
  \<^verbatim>\<open>None\<close> nor the empty string. \<open>sv\<close> reads the text of a value that passed such a test.
\<close>

definition truthy :: "pystr option \<Rightarrow> bool" where
  "truthy x \<longleftrightarrow> (case x of None \<Rightarrow> False | Some s \<Rightarrow> s \<noteq> [])"

definition sv :: "pystr option \<Rightarrow> pystr" where
  "sv x = (case x of None \<Rightarrow> [] | Some s \<Rightarrow> s)"

fun py_startswith :: "pystr \<Rightarrow> pystr \<Rightarrow> bool" where
  "py_startswith s [] = True"
| "py_startswith [] (p # ps) = False"
| "py_startswith (c # cs) (p # ps) = (c = p \<and> py_startswith cs ps)"

text \<open>\<open>py_in p s\<close> is Python's \<^verbatim>\<open>p in s\<close> on strings: \<open>p\<close> occurs in \<open>s\<close> as a substring.\<close>

fun py_in :: "pystr \<Rightarrow> pystr \<Rightarrow> bool" where
  "py_in p [] = (p = [])"
| "py_in p (c # cs) = (py_startswith (c # cs) p \<or> py_in p cs)"

fun py_join :: "pystr \<Rightarrow> pystr list \<Rightarrow> pystr" where
  "py_join sep [] = []"
| "py_join sep [x] = x"
| "py_join sep (x # y # ys) = x @ sep @ py_join sep (y # ys)"

text \<open>\<^verbatim>\<open>str(i)\<close> of a non-negative integer, as an f-string prints a loop counter.\<close>

fun py_str :: "nat \<Rightarrow> pystr" where
  "py_str n = (if n < 10 then [48 + n] else py_str (n div 10) @ [48 + n mod 10])"

declare py_str.simps [simp del]

subsection \<open>Text literals of the source\<close>

(* handlers.py:49, transliterated: "Izvinite, proizoshla oshibka pri obrabotke vashego
   zaprosa. Poprobujte pereformulirovat'." *)
definition msg_llm_error :: pystr where
  "msg_llm_error = [1048, 1079, 1074, 1080, 1085, 1080, 1090, 1077, 44, 32, 1087, 1088, 1086, 1080, 1079, 1086,
    1096, 1083, 1072, 32, 1086, 1096, 1080, 1073, 1082, 1072, 32, 1087, 1088, 1080, 32, 1086,
    1073, 1088, 1072, 1073, 1086, 1090, 1082, 1077, 32, 1074, 1072, 1096, 1077, 1075, 1086, 32,
    1079, 1072, 1087, 1088, 1086, 1089, 1072, 46, 32, 1055, 1086, 1087, 1088, 1086, 1073, 1091,
    1081, 1090, 1077, 32, 1087, 1077, 1088, 1077, 1092, 1086, 1088, 1084, 1091, 1083, 1080,
    1088, 1086, 1074, 1072, 1090, 1100, 46]"

(* handlers.py:94, transliterated: "\n\nPravil'no li ya ponyal? (Da / Net)" *)
definition confirm_suffix :: pystr where
  "confirm_suffix = [10, 10, 1055, 1088, 1072, 1074, 1080, 1083, 1100, 1085, 1086, 32, 1083, 1080, 32, 1103, 32,
    1087, 1086, 1085, 1103, 1083, 63, 32, 40, 1044, 1072, 32, 47, 32, 1053, 1077, 1090, 41]"

(* handlers.py:107, transliterated: "Izvinite, ya ne ponyal vashu komandu. Poprobujte
   skazat', naprimer:\n- Sozdat' sobytie: 'naznach' vstrechu na zavtra v 15:00'\n- Pokazat'
   sobytiya: 'pokazhi sobytiya na 27 noyabrya'\n- Udalit' sobytie: 'udali vstrechu s Vadimom'"
   *)
definition msg_unknown_help :: pystr where
  "msg_unknown_help = [1048, 1079, 1074, 1080, 1085, 1080, 1090, 1077, 44, 32, 1103, 32, 1085, 1077, 32, 1087,
    1086, 1085, 1103, 1083, 32, 1074, 1072, 1096, 1091, 32, 1082, 1086, 1084, 1072, 1085, 1076,
    1091, 46, 32, 1055, 1086, 1087, 1088, 1086, 1073, 1091, 1081, 1090, 1077, 32, 1089, 1082,
    1072, 1079, 1072, 1090, 1100, 44, 32, 1085, 1072, 1087, 1088, 1080, 1084, 1077, 1088, 58,
    10, 45, 32, 1057, 1086, 1079, 1076, 1072, 1090, 1100, 32, 1089, 1086, 1073, 1099, 1090,
    1080, 1077, 58, 32, 39, 1085, 1072, 1079, 1085, 1072, 1095, 1100, 32, 1074, 1089, 1090,
    1088, 1077, 1095, 1091, 32, 1085, 1072, 32, 1079, 1072, 1074, 1090, 1088, 1072, 32, 1074,
    32, 49, 53, 58, 48, 48, 39, 10, 45, 32, 1055, 1086, 1082, 1072, 1079, 1072, 1090, 1100, 32,
    1089, 1086, 1073, 1099, 1090, 1080, 1103, 58, 32, 39, 1087, 1086, 1082, 1072, 1078, 1080,
    32, 1089, 1086, 1073, 1099, 1090, 1080, 1103, 32, 1085, 1072, 32, 50, 55, 32, 1085, 1086,
    1103, 1073, 1088, 1103, 39, 10, 45, 32, 1059, 1076, 1072, 1083, 1080, 1090, 1100, 32, 1089,
    1086, 1073, 1099, 1090, 1080, 1077, 58, 32, 39, 1091, 1076, 1072, 1083, 1080, 32, 1074,
    1089, 1090, 1088, 1077, 1095, 1091, 32, 1089, 32, 1042, 1072, 1076, 1080, 1084, 1086, 1084,
    39]"

(* handlers.py:139, transliterated: "<U+2705> Sobytie udaleno." *)
definition msg_deleted :: pystr where
  "msg_deleted = [9989, 32, 1057, 1086, 1073, 1099, 1090, 1080, 1077, 32, 1091, 1076, 1072, 1083, 1077, 1085,
    1086, 46]"

(* handlers.py:141, transliterated: "<U+274C> Ne udalos' udalit' sobytie." *)
definition msg_delete_failed :: pystr where
  "msg_delete_failed = [10060, 32, 1053, 1077, 32, 1091, 1076, 1072, 1083, 1086, 1089, 1100, 32, 1091, 1076, 1072,
    1083, 1080, 1090, 1100, 32, 1089, 1086, 1073, 1099, 1090, 1080, 1077, 46]"

(* handlers.py:147, transliterated: "Horosho, sobytie ne budet udaleno." *)
definition msg_delete_cancelled :: pystr where
  "msg_delete_cancelled = [1061, 1086, 1088, 1086, 1096, 1086, 44, 32, 1089, 1086, 1073, 1099, 1090, 1080, 1077, 32,
    1085, 1077, 32, 1073, 1091, 1076, 1077, 1090, 32, 1091, 1076, 1072, 1083, 1077, 1085, 1086,
    46]"

(* handlers.py:152, transliterated: "Pozhalujsta, otvet'te 'Da' ili 'Net'." *)
definition msg_yes_no :: pystr where
  "msg_yes_no = [1055, 1086, 1078, 1072, 1083, 1091, 1081, 1089, 1090, 1072, 44, 32, 1086, 1090, 1074, 1077,
    1090, 1100, 1090, 1077, 32, 39, 1044, 1072, 39, 32, 1080, 1083, 1080, 32, 39, 1053, 1077,
    1090, 39, 46]"

(* handlers.py:184, transliterated: "Ponyatno. Pozhalujsta, pereformulirujte vash zapros
   bolee podrobno." *)
definition msg_rephrase :: pystr where
  "msg_rephrase = [1055, 1086, 1085, 1103, 1090, 1085, 1086, 46, 32, 1055, 1086, 1078, 1072, 1083, 1091, 1081,
    1089, 1090, 1072, 44, 32, 1087, 1077, 1088, 1077, 1092, 1086, 1088, 1084, 1091, 1083, 1080,
    1088, 1091, 1081, 1090, 1077, 32, 1074, 1072, 1096, 32, 1079, 1072, 1087, 1088, 1086, 1089,
    32, 1073, 1086, 1083, 1077, 1077, 32, 1087, 1086, 1076, 1088, 1086, 1073, 1085, 1086, 46]"

(* handlers.py:207, transliterated: "Spasibo za utochneniya. Obrabatyvayu vash zapros..." *)
definition msg_thanks :: pystr where
  "msg_thanks = [1057, 1087, 1072, 1089, 1080, 1073, 1086, 32, 1079, 1072, 32, 1091, 1090, 1086, 1095, 1085,
    1077, 1085, 1080, 1103, 46, 32, 1054, 1073, 1088, 1072, 1073, 1072, 1090, 1099, 1074, 1072,
    1102, 32, 1074, 1072, 1096, 32, 1079, 1072, 1087, 1088, 1086, 1089, 46, 46, 46]"

(* handlers.py:212, transliterated: "Pozhalujsta, povtorite vash zapros s uchetom
   utochnenij." *)
definition msg_repeat :: pystr where
  "msg_repeat = [1055, 1086, 1078, 1072, 1083, 1091, 1081, 1089, 1090, 1072, 44, 32, 1087, 1086, 1074, 1090,
    1086, 1088, 1080, 1090, 1077, 32, 1074, 1072, 1096, 32, 1079, 1072, 1087, 1088, 1086, 1089,
    32, 1089, 32, 1091, 1095, 1077, 1090, 1086, 1084, 32, 1091, 1090, 1086, 1095, 1085, 1077,
    1085, 1080, 1081, 46]"

(* handlers.py:226, transliterated: "Dlya sozdaniya sobytiya neobhodimo ukazat' nazvanie i
   vremya nachala. Pozhalujsta, utochnite eti dannye." *)
definition msg_create_validation :: pystr where
  "msg_create_validation = [1044, 1083, 1103, 32, 1089, 1086, 1079, 1076, 1072, 1085, 1080, 1103, 32, 1089, 1086, 1073,
    1099, 1090, 1080, 1103, 32, 1085, 1077, 1086, 1073, 1093, 1086, 1076, 1080, 1084, 1086, 32,
    1091, 1082, 1072, 1079, 1072, 1090, 1100, 32, 1085, 1072, 1079, 1074, 1072, 1085, 1080,
    1077, 32, 1080, 32, 1074, 1088, 1077, 1084, 1103, 32, 1085, 1072, 1095, 1072, 1083, 1072,
    46, 32, 1055, 1086, 1078, 1072, 1083, 1091, 1081, 1089, 1090, 1072, 44, 32, 1091, 1090,
    1086, 1095, 1085, 1080, 1090, 1077, 32, 1101, 1090, 1080, 32, 1076, 1072, 1085, 1085, 1099,
    1077, 46]"

(* handlers.py:244, transliterated: "<U+2705> Sobytie sozdano!\n\n<U+1F4C5> " *)
definition created_head :: pystr where
  "created_head = [9989, 32, 1057, 1086, 1073, 1099, 1090, 1080, 1077, 32, 1089, 1086, 1079, 1076, 1072, 1085,
    1086, 33, 10, 10, 128197, 32]"

(* handlers.py:244, transliterated: "\n<U+1F550> " *)
definition created_time :: pystr where
  "created_time = [10, 128336, 32]"

(* handlers.py:244, transliterated: "\n" *)
definition nl :: pystr where
  "nl = [10]"

(* handlers.py:249, transliterated: "<U+1F4CD> " *)
definition created_location :: pystr where
  "created_location = [128205, 32]"

(* handlers.py:251, transliterated: "<U+1F465> Uchastniki: " *)
definition created_participants :: pystr where
  "created_participants = [128101, 32, 1059, 1095, 1072, 1089, 1090, 1085, 1080, 1082, 1080, 58, 32]"

(* handlers.py:251, transliterated: ", " *)
definition comma_sep :: pystr where
  "comma_sep = [44, 32]"

(* handlers.py:252, transliterated: "\nID sobytiya: " *)
definition created_id :: pystr where
  "created_id = [10, 73, 68, 32, 1089, 1086, 1073, 1099, 1090, 1080, 1103, 58, 32]"

(* handlers.py:254, transliterated: "\n<U+1F517> " *)
definition created_link :: pystr where
  "created_link = [10, 128279, 32]"

(* handlers.py:259, transliterated: "<U+274C> Ne udalos' sozdat' sobytie. Prover'te
   pravil'nost' dannyh i poprobujte snova." *)
definition msg_create_failed :: pystr where
  "msg_create_failed = [10060, 32, 1053, 1077, 32, 1091, 1076, 1072, 1083, 1086, 1089, 1100, 32, 1089, 1086, 1079,
    1076, 1072, 1090, 1100, 32, 1089, 1086, 1073, 1099, 1090, 1080, 1077, 46, 32, 1055, 1088,
    1086, 1074, 1077, 1088, 1100, 1090, 1077, 32, 1087, 1088, 1072, 1074, 1080, 1083, 1100,
    1085, 1086, 1089, 1090, 1100, 32, 1076, 1072, 1085, 1085, 1099, 1093, 32, 1080, 32, 1087,
    1086, 1087, 1088, 1086, 1073, 1091, 1081, 1090, 1077, 32, 1089, 1085, 1086, 1074, 1072, 46]"

(* handlers.py:285, transliterated: "Pozhalujsta, ukazhite datu dlya prosmotra sobytij.
   Naprimer: 'pokazhi sobytiya na 27 noyabrya' ili '/view 2025-11-27'" *)
definition msg_need_date :: pystr where
  "msg_need_date = [1055, 1086, 1078, 1072, 1083, 1091, 1081, 1089, 1090, 1072, 44, 32, 1091, 1082, 1072, 1078,
    1080, 1090, 1077, 32, 1076, 1072, 1090, 1091, 32, 1076, 1083, 1103, 32, 1087, 1088, 1086,
    1089, 1084, 1086, 1090, 1088, 1072, 32, 1089, 1086, 1073, 1099, 1090, 1080, 1081, 46, 32,
    1053, 1072, 1087, 1088, 1080, 1084, 1077, 1088, 58, 32, 39, 1087, 1086, 1082, 1072, 1078,
    1080, 32, 1089, 1086, 1073, 1099, 1090, 1080, 1103, 32, 1085, 1072, 32, 50, 55, 32, 1085,
    1086, 1103, 1073, 1088, 1103, 39, 32, 1080, 1083, 1080, 32, 39, 47, 118, 105, 101, 119, 32,
    50, 48, 50, 53, 45, 49, 49, 45, 50, 55, 39]"

(* handlers.py:295, transliterated: "<U+1F4C5> Na " *)
definition no_events_head :: pystr where
  "no_events_head = [128197, 32, 1053, 1072, 32]"

(* handlers.py:295, transliterated: " net zaplanirovannyh sobytij." *)
definition no_events_tail :: pystr where
  "no_events_tail = [32, 1085, 1077, 1090, 32, 1079, 1072, 1087, 1083, 1072, 1085, 1080, 1088, 1086, 1074, 1072,
    1085, 1085, 1099, 1093, 32, 1089, 1086, 1073, 1099, 1090, 1080, 1081, 46]"

(* handlers.py:300, transliterated: "<U+1F4C5> Sobytiya na " *)
definition events_head :: pystr where
  "events_head = [128197, 32, 1057, 1086, 1073, 1099, 1090, 1080, 1103, 32, 1085, 1072, 32]"

(* handlers.py:300, transliterated: ":\n\n" *)
definition events_head_end :: pystr where
  "events_head_end = [58, 10, 10]"

(* handlers.py:303, transliterated: "Bez nazvaniya" *)
definition no_title :: pystr where
  "no_title = [1041, 1077, 1079, 32, 1085, 1072, 1079, 1074, 1072, 1085, 1080, 1103]"

(* handlers.py:314, transliterated: "?" *)
definition unknown_time :: pystr where
  "unknown_time = [63]"

(* handlers.py:317, transliterated: ". <U+1F550> " *)
definition list_item_time :: pystr where
  "list_item_time = [46, 32, 128336, 32]"

(* handlers.py:317, transliterated: " - " *)
definition list_item_dash :: pystr where
  "list_item_dash = [32, 45, 32]"

(* handlers.py:317, transliterated: "\n   ID: " *)
definition list_item_id :: pystr where
  "list_item_id = [10, 32, 32, 32, 73, 68, 58, 32]"

(* handlers.py:317, transliterated: "...\n\n" *)
definition list_item_end :: pystr where
  "list_item_end = [46, 46, 46, 10, 10]"

(* handlers.py:342, transliterated: "Dlya udaleniya sobytiya neobhodimo ukazat' ego
   nazvanie. Pozhalujsta, utochnite." *)
definition msg_delete_need_title :: pystr where
  "msg_delete_need_title = [1044, 1083, 1103, 32, 1091, 1076, 1072, 1083, 1077, 1085, 1080, 1103, 32, 1089, 1086, 1073,
    1099, 1090, 1080, 1103, 32, 1085, 1077, 1086, 1073, 1093, 1086, 1076, 1080, 1084, 1086, 32,
    1091, 1082, 1072, 1079, 1072, 1090, 1100, 32, 1077, 1075, 1086, 32, 1085, 1072, 1079, 1074,
    1072, 1085, 1080, 1077, 46, 32, 1055, 1086, 1078, 1072, 1083, 1091, 1081, 1089, 1090, 1072,
    44, 32, 1091, 1090, 1086, 1095, 1085, 1080, 1090, 1077, 46]"

(* handlers.py:369, transliterated: "Ne najdeno sobytij s nazvaniem '" *)
definition not_found_head :: pystr where
  "not_found_head = [1053, 1077, 32, 1085, 1072, 1081, 1076, 1077, 1085, 1086, 32, 1089, 1086, 1073, 1099, 1090,
    1080, 1081, 32, 1089, 32, 1085, 1072, 1079, 1074, 1072, 1085, 1080, 1077, 1084, 32, 39]"

(* handlers.py:369, transliterated: "' na " *)
definition not_found_on :: pystr where
  "not_found_on = [39, 32, 1085, 1072, 32]"

(* handlers.py:369, transliterated: "." *)
definition full_stop :: pystr where
  "full_stop = [46]"

(* handlers.py:382, transliterated: "Najdeno sobytie:\n\n<U+1F4C5> " *)
definition found_head :: pystr where
  "found_head = [1053, 1072, 1081, 1076, 1077, 1085, 1086, 32, 1089, 1086, 1073, 1099, 1090, 1080, 1077, 58,
    10, 10, 128197, 32]"

(* handlers.py:388, transliterated: "<U+1F550> " *)
definition found_time :: pystr where
  "found_time = [128336, 32]"

(* handlers.py:392, transliterated: "\nUdalit' eto sobytie? (Da / Net)" *)
definition delete_question :: pystr where
  "delete_question = [10, 1059, 1076, 1072, 1083, 1080, 1090, 1100, 32, 1101, 1090, 1086, 32, 1089, 1086, 1073,
    1099, 1090, 1080, 1077, 63, 32, 40, 1044, 1072, 32, 47, 32, 1053, 1077, 1090, 41]"

(* handlers.py:404, transliterated: "Najdeno neskol'ko sobytij s nazvaniem '" *)
definition several_head :: pystr where
  "several_head = [1053, 1072, 1081, 1076, 1077, 1085, 1086, 32, 1085, 1077, 1089, 1082, 1086, 1083, 1100,
    1082, 1086, 32, 1089, 1086, 1073, 1099, 1090, 1080, 1081, 32, 1089, 32, 1085, 1072, 1079,
    1074, 1072, 1085, 1080, 1077, 1084, 32, 39]"

(* handlers.py:404, transliterated: "':\n\n" *)
definition several_head_end :: pystr where
  "several_head_end = [39, 58, 10, 10]"

(* handlers.py:408, transliterated: ". " *)
definition several_item_dot :: pystr where
  "several_item_dot = [46, 32]"

(* handlers.py:408, transliterated: " (ID: " *)
definition several_item_id :: pystr where
  "several_item_id = [32, 40, 73, 68, 58, 32]"

(* handlers.py:408, transliterated: "...)\n" *)
definition several_item_end :: pystr where
  "several_item_end = [46, 46, 46, 41, 10]"

(* handlers.py:409, transliterated: "\nPozhalujsta, ukazhite ID sobytiya dlya udaleniya." *)
definition several_tail :: pystr where
  "several_tail = [10, 1055, 1086, 1078, 1072, 1083, 1091, 1081, 1089, 1090, 1072, 44, 32, 1091, 1082, 1072,
    1078, 1080, 1090, 1077, 32, 73, 68, 32, 1089, 1086, 1073, 1099, 1090, 1080, 1103, 32, 1076,
    1083, 1103, 32, 1091, 1076, 1072, 1083, 1077, 1085, 1080, 1103, 46]"

(* handlers.py:416, transliterated: "sozdat' sobytie" *)
definition action_create :: pystr where
  "action_create = [1089, 1086, 1079, 1076, 1072, 1090, 1100, 32, 1089, 1086, 1073, 1099, 1090, 1080, 1077]"

(* handlers.py:417, transliterated: "pokazat' sobytiya" *)
definition action_list :: pystr where
  "action_list = [1087, 1086, 1082, 1072, 1079, 1072, 1090, 1100, 32, 1089, 1086, 1073, 1099, 1090, 1080,
    1103]"

(* handlers.py:418, transliterated: "udalit' sobytie" *)
definition action_delete :: pystr where
  "action_delete = [1091, 1076, 1072, 1083, 1080, 1090, 1100, 32, 1089, 1086, 1073, 1099, 1090, 1080, 1077]"

(* handlers.py:421, transliterated: "vypolnit' dejstvie" *)
definition action_default :: pystr where
  "action_default = [1074, 1099, 1087, 1086, 1083, 1085, 1080, 1090, 1100, 32, 1076, 1077, 1081, 1089, 1090,
    1074, 1080, 1077]"

(* handlers.py:424, transliterated: "Ya pravil'no ponyal, chto nuzhno " *)
definition confirm_head :: pystr where
  "confirm_head = [1071, 32, 1087, 1088, 1072, 1074, 1080, 1083, 1100, 1085, 1086, 32, 1087, 1086, 1085, 1103,
    1083, 44, 32, 1095, 1090, 1086, 32, 1085, 1091, 1078, 1085, 1086, 32]"

(* handlers.py:424, transliterated: "?" *)
definition question_mark :: pystr where
  "question_mark = [63]"

(* handlers.py:427, transliterated: "Nazvanie: " *)
definition label_title :: pystr where
  "label_title = [1053, 1072, 1079, 1074, 1072, 1085, 1080, 1077, 58, 32]"

(* handlers.py:429, transliterated: "Vremya nachala: " *)
definition label_start :: pystr where
  "label_start = [1042, 1088, 1077, 1084, 1103, 32, 1085, 1072, 1095, 1072, 1083, 1072, 58, 32]"

(* handlers.py:431, transliterated: "Vremya okonchaniya: " *)
definition label_end :: pystr where
  "label_end = [1042, 1088, 1077, 1084, 1103, 32, 1086, 1082, 1086, 1085, 1095, 1072, 1085, 1080, 1103, 58,
    32]"

(* handlers.py:433, transliterated: "Mesto: " *)
definition label_location :: pystr where
  "label_location = [1052, 1077, 1089, 1090, 1086, 58, 32]"

(* handlers.py:435, transliterated: "Uchastniki: " *)
definition label_participants :: pystr where
  "label_participants = [1059, 1095, 1072, 1089, 1090, 1085, 1080, 1082, 1080, 58, 32]"

(* handlers.py:443, transliterated: "%d.%m.%Y %H:%M" *)
definition fmt_user_datetime :: pystr where
  "fmt_user_datetime = [37, 100, 46, 37, 109, 46, 37, 89, 32, 37, 72, 58, 37, 77]"

(* handlers.py:451, transliterated: "%d.%m.%Y" *)
definition fmt_user_date :: pystr where
  "fmt_user_date = [37, 100, 46, 37, 109, 46, 37, 89]"

(* handlers.py:279, transliterated: "%Y-%m-%d" *)
definition fmt_date :: pystr where
  "fmt_date = [37, 89, 45, 37, 109, 45, 37, 100]"

(* handlers.py:310, transliterated: "%H:%M" *)
definition fmt_time :: pystr where
  "fmt_time = [37, 72, 58, 37, 77]"

(* handlers.py:388, transliterated: "%Y-%m-%d %H:%M" *)
definition fmt_date_time :: pystr where
  "fmt_date_time = [37, 89, 45, 37, 109, 45, 37, 100, 32, 37, 72, 58, 37, 77]"

(* calendar_client.py:283, transliterated: "%Y-%m-%dT%H:%M:%S%z" *)
definition fmt_iso_z :: pystr where
  "fmt_iso_z = [37, 89, 45, 37, 109, 45, 37, 100, 84, 37, 72, 58, 37, 77, 58, 37, 83, 37, 122]"

(* calendar_client.py:276, transliterated: "+00:00" *)
definition utc_suffix :: pystr where
  "utc_suffix = [43, 48, 48, 58, 48, 48]"

(* calendar_client.py:124, transliterated: "\nUchastniki: " *)
definition description_participants_nl :: pystr where
  "description_participants_nl = [10, 1059, 1095, 1072, 1089, 1090, 1085, 1080, 1082, 1080, 58, 32]"

(* calendar_client.py:126, transliterated: "Uchastniki: " *)
definition description_participants :: pystr where
  "description_participants = [1059, 1095, 1072, 1089, 1090, 1085, 1080, 1082, 1080, 58, 32]"

(* handlers.py:134, transliterated: ["da", "yes", "davaj", "ok", "horosho"] *)
definition affirmative :: "pystr list" where
  "affirmative = [[1076, 1072], [121, 101, 115], [1076, 1072, 1074, 1072, 1081], [1086, 1082], [1093, 1086,
    1088, 1086, 1096, 1086]]"

(* handlers.py:144, transliterated: ["net", "no", "ne", "nepravil'no"] *)
definition negative :: "pystr list" where
  "negative = [[1085, 1077, 1090], [110, 111], [1085, 1077], [1085, 1077, 1087, 1088, 1072, 1074, 1080,
    1083, 1100, 1085, 1086]]"


text \<open>\<^verbatim>\<open>dt_str.replace("Z", "+00:00")\<close>\<close>

definition replace_Z :: "pystr \<Rightarrow> pystr" where
  "replace_Z s = concat (map (\<lambda>c. if c = 90 then utc_suffix else [c]) s)"

section \<open>The data model\<close>

subsection \<open>Dates and times\<close>

text \<open>
  A \<^verbatim>\<open>datetime\<close> is its wall-clock reading, in microseconds since 0001-01-01T00:00:00,
  with its \<^verbatim>\<open>tzinfo\<close>. Adding a \<^verbatim>\<open>timedelta\<close> moves the wall-clock reading and keeps the
  \<^verbatim>\<open>tzinfo\<close>; a result outside 0001-01-01 .. 9999-12-31T23:59:59.999999 raises
  \<^verbatim>\<open>OverflowError\<close>. Parsing and printing are library functions and belong to the world
  record below.
\<close>

datatype tz = FixedOffset int | ZoneInfo pystr

record datetime =
  ticks :: int
  tzinfo :: "tz option"

definition max_ticks :: int where
  "max_ticks = 3652059 * 86400000000 - 1"

definition add_minutes :: "datetime \<Rightarrow> int \<Rightarrow> py_error + datetime" where
  "add_minutes dt m =
     (let t = ticks dt + m * 60000000
      in if 0 \<le> t \<and> t \<le> max_ticks then Inr (dt\<lparr>ticks := t\<rparr>) else Inl OverflowError)"

subsection \<open>schema.py\<close>

datatype intent = Create | ListEvents | Delete | Unknown

record ClarifyModel =
  needed :: bool
  questions :: "pystr list"

record SlotsModel =
  title :: "pystr option"
  start :: "pystr option"
  end_time :: "pystr option"
  date :: "pystr option"
  participants :: "pystr list option"
  description :: "pystr option"
  location :: "pystr option"
  event_id :: "pystr option"

record LLMResponseModel =
  intent :: intent
  confidence :: real
  slots :: SlotsModel
  clarify :: ClarifyModel

subsection \<open>Calendar events\<close>

text \<open>
  An event resource as the calendar service returns it. The service keys every event by its
  \<^verbatim>\<open>id\<close>, so that field is always there; the summary, the two forms of the start and the
  link may be missing, and the source reads them with \<^verbatim>\<open>.get\<close> and a default.
\<close>

record api_event =
  ev_id :: pystr
  ev_summary :: "pystr option"
  ev_start_dateTime :: "pystr option"
  ev_start_date :: "pystr option"
  ev_htmlLink :: "pystr option"

text \<open>The body that \<^verbatim>\<open>create_event\<close> sends to the service.\<close>

record event_body =
  body_summary :: pystr
  body_start_dateTime :: pystr
  body_start_timeZone :: pystr
  body_end_dateTime :: pystr
  body_end_timeZone :: pystr
  body_description :: "pystr option"
  body_location :: "pystr option"
  body_attendees :: "pystr list option"

subsection \<open>The world outside the handlers\<close>

text \<open>
  One record holds what a handler reads from outside during one inbound message: the
  configuration (\<^verbatim>\<open>config.py\<close>), the answer of the classifier, the answers of the calendar
  service (\<open>None\<close> or \<open>False\<close> when the request raises), the clock, and the library
  functions on strings and dates that the source calls. A handler makes at most one calendar
  request per message, so a function from the request to its answer is enough.

  The confidence and the threshold are Python floats that are only compared; they are
  taken as reals.
\<close>

record world =
  confidence_threshold :: real
  default_duration_min :: int
  timezone :: pystr
  parse_user_message :: "pystr \<Rightarrow> LLMResponseModel option"
  events_insert :: "event_body \<Rightarrow> api_event option"
  events_list :: "pystr \<Rightarrow> pystr \<Rightarrow> api_event list option"
  events_delete :: "pystr \<Rightarrow> bool"
  now :: datetime
  str_lower :: "pystr \<Rightarrow> pystr"
  fromisoformat :: "pystr \<Rightarrow> datetime option"
  strptime :: "pystr \<Rightarrow> pystr \<Rightarrow> datetime option"
  strftime :: "datetime \<Rightarrow> pystr \<Rightarrow> pystr"
  isoformat :: "datetime \<Rightarrow> pystr"
  zone_known :: "pystr \<Rightarrow> bool"

subsection \<open>The state of the bot\<close>

text \<open>
  \<^verbatim>\<open>clarification_context\<close> maps a user to the dictionary stored for them. The source stores
  three shapes of dictionary and tells them apart by the keys present, so the dictionary is
  a record of optional entries. Besides that context the state logs what a handler does:
  the replies sent (\<^verbatim>\<open>reply_text\<close> is taken to succeed), the methods of \<^verbatim>\<open>CalendarClient\<close>
  called, and the requests executed on the calendar service.
\<close>

record context_data =
  cd_intent :: "intent option"
  cd_slots :: "SlotsModel option"
  cd_questions :: "pystr list option"
  cd_current_question_index :: "nat option"
  cd_waiting_confirmation :: "bool option"
  cd_waiting_delete_confirmation :: "bool option"
  cd_event_id :: "pystr option"

datatype client_call =
  CreateEvent pystr pystr "pystr option" "pystr option" "pystr option" "pystr list option"
| ListEventsOn pystr
| DeleteEvent pystr

datatype api_call =
  ApiInsert event_body
| ApiList pystr pystr
| ApiDelete pystr

record bot_state =
  clarification_context :: "int \<Rightarrow> context_data option"
  sent :: "(int \<times> pystr) list"
  client_calls :: "client_call list"
  api_calls :: "api_call list"

definition reply_text :: "bot_state \<Rightarrow> int \<Rightarrow> pystr \<Rightarrow> bot_state" where
  "reply_text st user_id text = st\<lparr>sent := sent st @ [(user_id, text)]\<rparr>"

definition set_context :: "bot_state \<Rightarrow> int \<Rightarrow> context_data \<Rightarrow> bot_state" where
  "set_context st user_id cd =
     st\<lparr>clarification_context := (clarification_context st)(user_id \<mapsto> cd)\<rparr>"

definition del_context :: "bot_state \<Rightarrow> int \<Rightarrow> bot_state" where
  "del_context st user_id =
     st\<lparr>clarification_context := (clarification_context st)(user_id := None)\<rparr>"

section \<open>The calendar client\<close>

definition get_timezone :: "world \<Rightarrow> py_error + tz" where
  "get_timezone w =
     (if zone_known w (timezone w) then Inr (ZoneInfo (timezone w))
      else Inl ZoneInfoNotFoundError)"

definition parse_datetime :: "world \<Rightarrow> pystr \<Rightarrow> py_error + datetime" where
  "parse_datetime w dt_str =
     (let s = replace_Z dt_str in
      case (case fromisoformat w s of
              Some dt \<Rightarrow> Inr dt
            | None \<Rightarrow> (case strptime w s fmt_iso_z of
                         Some dt \<Rightarrow> Inr dt
                       | None \<Rightarrow> Inl ValueError)) of
        Inl err \<Rightarrow> Inl err
      | Inr dt \<Rightarrow>
          if tzinfo dt = None
          then (case get_timezone w of
                  Inl err \<Rightarrow> Inl err
                | Inr z \<Rightarrow> Inr (dt\<lparr>tzinfo := Some z\<rparr>))
          else Inr dt)"

text \<open>A list that may be \<^verbatim>\<open>None\<close>, as a loop or a truth test reads it.\<close>

definition plist :: "pystr list option \<Rightarrow> pystr list" where
  "plist x = (case x of None \<Rightarrow> [] | Some ps \<Rightarrow> ps)"

text \<open>
  The loop over the participants in \<^verbatim>\<open>create_event\<close> (lines 115-126). \<open>every\<close> is the
  whole list, which the body of the loop joins each time it meets a participant without
  \<^verbatim>\<open>@\<close>; the two accumulators are \<^verbatim>\<open>attendees\<close> and \<^verbatim>\<open>description\<close>.
\<close>

fun collect_participants ::
  "pystr list \<Rightarrow> pystr list \<Rightarrow> pystr list \<Rightarrow> pystr option \<Rightarrow> pystr list \<times> pystr option" where
  "collect_participants every [] attendees d = (attendees, d)"
| "collect_participants every (p # rest) attendees d =
     (if py_in [64] p then collect_participants every rest (attendees @ [p]) d
      else if truthy d
      then collect_participants every rest attendees
             (Some (sv d @ description_participants_nl @ py_join comma_sep every))
      else collect_participants every rest attendees
             (Some (description_participants @ py_join comma_sep every)))"

text \<open>
  The part of \<^verbatim>\<open>create_event\<close> before the request: everything it raises is caught by the
  \<^verbatim>\<open>except\<close> clauses of \<^verbatim>\<open>create_event\<close>, which then returns \<^verbatim>\<open>None\<close>.
\<close>

definition build_event_body ::
  "world \<Rightarrow> pystr \<Rightarrow> pystr \<Rightarrow> pystr option \<Rightarrow> pystr option \<Rightarrow> pystr option \<Rightarrow>
   pystr list option \<Rightarrow> py_error + event_body" where
  "build_event_body w t start_datetime end_datetime d l ps =
     (case parse_datetime w start_datetime of
        Inl err \<Rightarrow> Inl err
      | Inr start_dt \<Rightarrow>
          (case (if truthy end_datetime then parse_datetime w (sv end_datetime)
                 else add_minutes start_dt (default_duration_min w)) of
             Inl err \<Rightarrow> Inl err
           | Inr end_dt \<Rightarrow>
               (case collect_participants (plist ps) (plist ps) [] d of
                  (attendees, d') \<Rightarrow>
                    Inr \<lparr>body_summary = t,
                         body_start_dateTime = isoformat w start_dt,
                         body_start_timeZone = timezone w,
                         body_end_dateTime = isoformat w end_dt,
                         body_end_timeZone = timezone w,
                         body_description = (if truthy d' then d' else None),
                         body_location = (if truthy l then l else None),
                         body_attendees = (if attendees \<noteq> [] then Some attendees else None)\<rparr>)))"

definition create_event ::
  "world \<Rightarrow> bot_state \<Rightarrow> pystr \<Rightarrow> pystr \<Rightarrow> pystr option \<Rightarrow> pystr option \<Rightarrow> pystr option \<Rightarrow>
   pystr list option \<Rightarrow> api_event option \<times> bot_state" where
  "create_event w st t start_datetime end_datetime d l ps =
     (let st1 = st\<lparr>client_calls :=
                  client_calls st @ [CreateEvent t start_datetime end_datetime d l ps]\<rparr>
      in case build_event_body w t start_datetime end_datetime d l ps of
           Inl err \<Rightarrow> (None, st1)
         | Inr body \<Rightarrow>
             (events_insert w body, st1\<lparr>api_calls := api_calls st1 @ [ApiInsert body]\<rparr>))"

definition day_us :: int where
  "day_us = 86400000000"

definition list_events :: "world \<Rightarrow> bot_state \<Rightarrow> pystr \<Rightarrow> api_event list \<times> bot_state" where
  "list_events w st d =
     (let st1 = st\<lparr>client_calls := client_calls st @ [ListEventsOn d]\<rparr>
      in case strptime w d fmt_date of
           None \<Rightarrow> ([], st1)
         | Some date_obj \<Rightarrow>
             (case get_timezone w of
                Inl err \<Rightarrow> ([], st1)
              | Inr z \<Rightarrow>
                  (let midnight = ticks date_obj - ticks date_obj mod day_us;
                       time_min = isoformat w \<lparr>ticks = midnight, tzinfo = Some z\<rparr>;
                       time_max = isoformat w \<lparr>ticks = midnight + day_us - 1, tzinfo = Some z\<rparr>;
                       st2 = st1\<lparr>api_calls := api_calls st1 @ [ApiList time_min time_max]\<rparr>
                   in case events_list w time_min time_max of
                        None \<Rightarrow> ([], st2)
                      | Some items \<Rightarrow> (items, st2))))"

definition delete_event :: "world \<Rightarrow> bot_state \<Rightarrow> pystr \<Rightarrow> bool \<times> bot_state" where
  "delete_event w st eid =
     (events_delete w eid,
      st\<lparr>client_calls := client_calls st @ [DeleteEvent eid],
         api_calls := api_calls st @ [ApiDelete eid]\<rparr>)"

definition find_events_by_title_and_date ::
  "world \<Rightarrow> bot_state \<Rightarrow> pystr \<Rightarrow> pystr \<Rightarrow> api_event list \<times> bot_state" where
  "find_events_by_title_and_date w st t d =
     (case list_events w st d of
        (events, st1) \<Rightarrow>
          (filter (\<lambda>ev. py_in (str_lower w t) (str_lower w (sv (ev_summary ev)))) events, st1))"

section \<open>The message handlers\<close>

subsection \<open>Formatting\<close>

definition format_datetime_for_user :: "world \<Rightarrow> pystr \<Rightarrow> pystr" where
  "format_datetime_for_user w dt_str =
     (case fromisoformat w (replace_Z dt_str) of
        Some dt \<Rightarrow> strftime w dt fmt_user_datetime
      | None \<Rightarrow> dt_str)"

definition format_date_for_user :: "world \<Rightarrow> pystr \<Rightarrow> pystr" where
  "format_date_for_user w date_str =
     (case strptime w date_str fmt_date of
        Some dt \<Rightarrow> strftime w dt fmt_user_date
      | None \<Rightarrow> date_str)"

definition format_confirmation :: "world \<Rightarrow> LLMResponseModel \<Rightarrow> pystr" where
  "format_confirmation w r =
     (let action = (case intent r of
                      Create \<Rightarrow> action_create
                    | ListEvents \<Rightarrow> action_list
                    | Delete \<Rightarrow> action_delete
                    | Unknown \<Rightarrow> action_default);
          s = slots r
      in py_join nl
           ([confirm_head @ action @ question_mark]
            @ (if truthy (title s) then [label_title @ sv (title s)] else [])
            @ (if truthy (start s)
               then [label_start @ format_datetime_for_user w (sv (start s))] else [])
            @ (if truthy (end_time s)
               then [label_end @ format_datetime_for_user w (sv (end_time s))] else [])
            @ (if truthy (location s) then [label_location @ sv (location s)] else [])
            @ (if plist (participants s) \<noteq> []
               then [label_participants @ py_join comma_sep (plist (participants s))]
               else [])))"

subsection \<open>Creating an event\<close>

definition created_message :: "world \<Rightarrow> SlotsModel \<Rightarrow> api_event \<Rightarrow> pystr" where
  "created_message w s event =
     created_head @ sv (title s) @ created_time
     @ format_datetime_for_user w (sv (start s)) @ nl
     @ (if truthy (location s) then created_location @ sv (location s) @ nl else [])
     @ (if plist (participants s) \<noteq> []
        then created_participants @ py_join comma_sep (plist (participants s)) @ nl else [])
     @ created_id @ ev_id event
     @ (if truthy (ev_htmlLink event) then created_link @ sv (ev_htmlLink event) else [])"

definition handle_create :: "world \<Rightarrow> bot_state \<Rightarrow> int \<Rightarrow> LLMResponseModel \<Rightarrow> bot_state" where
  "handle_create w st user_id r =
     (let s = slots r
      in if \<not> truthy (title s) \<or> \<not> truthy (start s)
         then reply_text st user_id msg_create_validation
         else (case create_event w st (sv (title s)) (sv (start s)) (end_time s)
                      (description s) (location s) (participants s) of
                 (Some event, st1) \<Rightarrow> reply_text st1 user_id (created_message w s event)
               | (None, st1) \<Rightarrow> reply_text st1 user_id msg_create_failed))"

subsection \<open>Listing events\<close>

text \<open>
  The date of a request, as both \<^verbatim>\<open>_handle_list\<close> (lines 272-281) and \<^verbatim>\<open>_handle_delete\<close>
  (lines 348-356) work it out: \<^verbatim>\<open>slots.date\<close>, else the date of \<^verbatim>\<open>slots.start\<close>, else
  \<^verbatim>\<open>None\<close>.
\<close>

definition target_date_of :: "world \<Rightarrow> SlotsModel \<Rightarrow> pystr option" where
  "target_date_of w s =
     (if truthy (date s) then date s
      else if truthy (start s)
      then (case fromisoformat w (replace_Z (sv (start s))) of
              Some dt \<Rightarrow> Some (strftime w dt fmt_date)
            | None \<Rightarrow> None)
      else None)"

definition start_time_of :: "api_event \<Rightarrow> pystr" where
  "start_time_of ev =
     (case ev_start_dateTime ev of
        Some x \<Rightarrow> x
      | None \<Rightarrow> (case ev_start_date ev of Some y \<Rightarrow> y | None \<Rightarrow> []))"

definition summary_of :: "api_event \<Rightarrow> pystr" where
  "summary_of ev = (case ev_summary ev of Some x \<Rightarrow> x | None \<Rightarrow> no_title)"

fun list_lines :: "world \<Rightarrow> nat \<Rightarrow> api_event list \<Rightarrow> pystr" where
  "list_lines w i [] = []"
| "list_lines w i (ev # evs) =
     (py_str i @ list_item_time
      @ (if start_time_of ev \<noteq> []
         then (case fromisoformat w (replace_Z (start_time_of ev)) of
                 Some dt \<Rightarrow> strftime w dt fmt_time
               | None \<Rightarrow> start_time_of ev)
         else unknown_time)
      @ list_item_dash @ summary_of ev @ list_item_id @ take 8 (ev_id ev) @ list_item_end)
     @ list_lines w (Suc i) evs"

definition handle_list :: "world \<Rightarrow> bot_state \<Rightarrow> int \<Rightarrow> LLMResponseModel \<Rightarrow> bot_state" where
  "handle_list w st user_id r =
     (let target_date = target_date_of w (slots r)
      in if \<not> truthy target_date then reply_text st user_id msg_need_date
         else (case list_events w st (sv target_date) of
                 (events, st1) \<Rightarrow>
                   if events = []
                   then reply_text st1 user_id
                          (no_events_head @ format_date_for_user w (sv target_date)
                           @ no_events_tail)
                   else reply_text st1 user_id
                          (events_head @ format_date_for_user w (sv target_date)
                           @ events_head_end @ list_lines w 1 events)))"

subsection \<open>Deleting an event\<close>

definition found_message :: "world \<Rightarrow> api_event \<Rightarrow> pystr" where
  "found_message w ev =
     found_head @ summary_of ev @ nl
     @ (if start_time_of ev \<noteq> []
        then (case fromisoformat w (replace_Z (start_time_of ev)) of
                Some dt \<Rightarrow> found_time @ strftime w dt fmt_date_time @ nl
              | None \<Rightarrow> found_time @ start_time_of ev @ nl)
        else [])
     @ delete_question"

fun several_lines :: "nat \<Rightarrow> api_event list \<Rightarrow> pystr" where
  "several_lines i [] = []"
| "several_lines i (ev # evs) =
     (py_str i @ several_item_dot @ summary_of ev @ several_item_id @ take 8 (ev_id ev)
      @ several_item_end)
     @ several_lines (Suc i) evs"

text \<open>
  The date a delete request searches (lines 347-360): the date of the slots, else today.
\<close>

definition delete_date :: "world \<Rightarrow> SlotsModel \<Rightarrow> pystr" where
  "delete_date w s =
     (let target_date = target_date_of w s
      in if \<not> truthy target_date then strftime w (now w) fmt_date else sv target_date)"

definition handle_delete :: "world \<Rightarrow> bot_state \<Rightarrow> int \<Rightarrow> LLMResponseModel \<Rightarrow> bot_state" where
  "handle_delete w st user_id r =
     (let s = slots r
      in if truthy (event_id s)
         then (case delete_event w st (sv (event_id s)) of
                 (success, st1) \<Rightarrow>
                   reply_text st1 user_id (if success then msg_deleted else msg_delete_failed))
         else if \<not> truthy (title s) then reply_text st user_id msg_delete_need_title
         else
           (let target_date = delete_date w s
            in case find_events_by_title_and_date w st (sv (title s)) target_date of
                 (matching_events, st1) \<Rightarrow>
                   (case matching_events of
                      [] \<Rightarrow>
                        reply_text st1 user_id
                          (not_found_head @ sv (title s) @ not_found_on
                           @ format_date_for_user w target_date @ full_stop)
                    | [event] \<Rightarrow>
                        reply_text
                          (set_context st1 user_id
                             \<lparr>cd_intent = None, cd_slots = None, cd_questions = None,
                              cd_current_question_index = None,
                              cd_waiting_confirmation = None,
                              cd_waiting_delete_confirmation = Some True,
                              cd_event_id = Some (ev_id event)\<rparr>)
                          user_id (found_message w event)
                    | _ \<Rightarrow>
                        reply_text st1 user_id
                          (several_head @ sv (title s) @ several_head_end
                           @ several_lines 1 matching_events @ several_tail))))"

subsection \<open>The dialogue engine\<close>

text \<open>
  \<^verbatim>\<open>_process_llm_response\<close>. The read \<^verbatim>\<open>questions[0]\<close> raises \<^verbatim>\<open>IndexError\<close> on an empty
  list, so the handler returns an error or the new state.
\<close>

definition process_llm_response ::
  "world \<Rightarrow> bot_state \<Rightarrow> int \<Rightarrow> LLMResponseModel \<Rightarrow> py_error + bot_state" where
  "process_llm_response w st user_id r =
     (if needed (clarify r) \<and> questions (clarify r) \<noteq> []
      then (let st1 = set_context st user_id
                        \<lparr>cd_intent = Some (intent r), cd_slots = Some (slots r),
                         cd_questions = Some (questions (clarify r)),
                         cd_current_question_index = Some 0,
                         cd_waiting_confirmation = None,
                         cd_waiting_delete_confirmation = None,
                         cd_event_id = None\<rparr>
            in case questions (clarify r) of
                 [] \<Rightarrow> Inl IndexError
               | first_question # _ \<Rightarrow> Inr (reply_text st1 user_id first_question))
      else if confidence r < confidence_threshold w
      then Inr (reply_text
                  (set_context st user_id
                     \<lparr>cd_intent = Some (intent r), cd_slots = Some (slots r),
                      cd_questions = None, cd_current_question_index = None,
                      cd_waiting_confirmation = Some True,
                      cd_waiting_delete_confirmation = None,
                      cd_event_id = None\<rparr>)
                  user_id (format_confirmation w r @ confirm_suffix))
      else Inr (case intent r of
                  Create \<Rightarrow> handle_create w st user_id r
                | ListEvents \<Rightarrow> handle_list w st user_id r
                | Delete \<Rightarrow> handle_delete w st user_id r
                | Unknown \<Rightarrow> reply_text st user_id msg_unknown_help))"

text \<open>
  \<^verbatim>\<open>SlotsModel(**slots)\<close>: the validator of \<^verbatim>\<open>schema.py\<close> accepts a start or an end that is
  \<^verbatim>\<open>None\<close> or that \<^verbatim>\<open>datetime.fromisoformat\<close> parses after the replacement of \<^verbatim>\<open>Z\<close>.
\<close>

definition validate_datetime :: "world \<Rightarrow> pystr option \<Rightarrow> bool" where
  "validate_datetime w v =
     (case v of None \<Rightarrow> True | Some s \<Rightarrow> fromisoformat w (replace_Z s) \<noteq> None)"

definition make_SlotsModel :: "world \<Rightarrow> SlotsModel \<Rightarrow> py_error + SlotsModel" where
  "make_SlotsModel w s =
     (if validate_datetime w (start s) \<and> validate_datetime w (end_time s) then Inr s
      else Inl ValidationError)"

definition handle_clarification_response ::
  "world \<Rightarrow> bot_state \<Rightarrow> int \<Rightarrow> pystr \<Rightarrow> py_error + bot_state" where
  "handle_clarification_response w st user_id user_message =
     (case clarification_context st user_id of
        None \<Rightarrow> Inl KeyError
      | Some context_data \<Rightarrow>
          if cd_waiting_delete_confirmation context_data = Some True
          then (let user_message_lower = py_strip (str_lower w user_message)
                in if user_message_lower \<in> set affirmative
                   then Inr (del_context
                               (if truthy (cd_event_id context_data)
                                then (case delete_event w st (sv (cd_event_id context_data)) of
                                        (success, st1) \<Rightarrow>
                                          reply_text st1 user_id
                                            (if success then msg_deleted
                                             else msg_delete_failed))
                                else st)
                               user_id)
                   else if user_message_lower \<in> set negative
                   then Inr (reply_text (del_context st user_id) user_id msg_delete_cancelled)
                   else Inr (reply_text st user_id msg_yes_no))
          else if cd_waiting_confirmation context_data = Some True
          then (let user_message_lower = py_strip (str_lower w user_message)
                in if user_message_lower \<in> set affirmative
                   then (case cd_slots context_data of
                           None \<Rightarrow> Inl KeyError
                         | Some stored \<Rightarrow>
                             (case cd_intent context_data of
                                None \<Rightarrow> Inl KeyError
                              | Some i \<Rightarrow>
                                  (case make_SlotsModel w stored of
                                     Inl err \<Rightarrow> Inl err
                                   | Inr s \<Rightarrow>
                                       (let temp_response =
                                              \<lparr>intent = i, confidence = 1, slots = s,
                                               clarify = \<lparr>needed = False, questions = []\<rparr>\<rparr>;
                                            st1 = del_context st user_id
                                        in Inr (case i of
                                                  Create \<Rightarrow>
                                                    handle_create w st1 user_id temp_response
                                                | ListEvents \<Rightarrow>
                                                    handle_list w st1 user_id temp_response
                                                | Delete \<Rightarrow>
                                                    handle_delete w st1 user_id temp_response
                                                | Unknown \<Rightarrow> st1)))))
                   else if user_message_lower \<in> set negative
                   then Inr (reply_text (del_context st user_id) user_id msg_rephrase)
                   else Inr (reply_text st user_id msg_yes_no))
          else
            (let qs = (case cd_questions context_data of None \<Rightarrow> [] | Some q \<Rightarrow> q);
                 current_index =
                   (case cd_current_question_index context_data of None \<Rightarrow> 0 | Some i \<Rightarrow> i)
             in if int current_index < int (length qs) - 1
                then (let st1 = set_context st user_id
                                  (context_data\<lparr>cd_current_question_index :=
                                                  Some (current_index + 1)\<rparr>)
                      in if current_index + 1 < length qs
                         then Inr (reply_text st1 user_id (qs ! (current_index + 1)))
                         else Inl IndexError)
                else Inr (reply_text
                            (reply_text (del_context st user_id) user_id msg_thanks)
                            user_id msg_repeat)))"

definition handle_message :: "world \<Rightarrow> bot_state \<Rightarrow> int \<Rightarrow> pystr \<Rightarrow> py_error + bot_state" where
  "handle_message w st user_id text =
     (let user_message = py_strip text
      in if clarification_context st user_id \<noteq> None
         then handle_clarification_response w st user_id user_message
         else (case parse_user_message w user_message of
                 None \<Rightarrow> Inr (reply_text st user_id msg_llm_error)
               | Some llm_response \<Rightarrow> process_llm_response w st user_id llm_response))"

section \<open>Notions of the specification\<close>

text \<open>
  The three variants of a pending dialogue state, as the dictionaries the source stores
  for them.
\<close>

definition awaiting_clarification ::
  "intent \<Rightarrow> SlotsModel \<Rightarrow> pystr list \<Rightarrow> nat \<Rightarrow> context_data" where
  "awaiting_clarification i s qs cursor =
     \<lparr>cd_intent = Some i, cd_slots = Some s, cd_questions = Some qs,
      cd_current_question_index = Some cursor, cd_waiting_confirmation = None,
      cd_waiting_delete_confirmation = None, cd_event_id = None\<rparr>"

definition awaiting_confirmation :: "intent \<Rightarrow> SlotsModel \<Rightarrow> context_data" where
  "awaiting_confirmation i s =
     \<lparr>cd_intent = Some i, cd_slots = Some s, cd_questions = None,
      cd_current_question_index = None, cd_waiting_confirmation = Some True,
      cd_waiting_delete_confirmation = None, cd_event_id = None\<rparr>"

definition awaiting_delete_confirmation :: "pystr \<Rightarrow> context_data" where
  "awaiting_delete_confirmation eid =
     \<lparr>cd_intent = None, cd_slots = None, cd_questions = None,
      cd_current_question_index = None, cd_waiting_confirmation = None,
      cd_waiting_delete_confirmation = Some True, cd_event_id = Some eid\<rparr>"

text \<open>
  Rules 3 and 4 of the fresh evaluation: the action dispatcher on a create, list or delete
  intent, the fixed help message on an unknown one.
\<close>

definition dispatch :: "world \<Rightarrow> bot_state \<Rightarrow> int \<Rightarrow> LLMResponseModel \<Rightarrow> bot_state" where
  "dispatch w st user_id r =
     (case intent r of
        Create \<Rightarrow> handle_create w st user_id r
      | ListEvents \<Rightarrow> handle_list w st user_id r
      | Delete \<Rightarrow> handle_delete w st user_id r
      | Unknown \<Rightarrow> reply_text st user_id msg_unknown_help)"

text \<open>A reply as the confirmation handlers compare it: lowercased, then trimmed.\<close>

definition normalized :: "world \<Rightarrow> pystr \<Rightarrow> pystr" where
  "normalized w m = py_strip (str_lower w m)"

text \<open>The calendar requests a handler has added to the log of a state.\<close>

definition new_api_calls :: "bot_state \<Rightarrow> bot_state \<Rightarrow> api_call list" where
  "new_api_calls st st' = drop (length (api_calls st)) (api_calls st')"

definition new_client_calls :: "bot_state \<Rightarrow> bot_state \<Rightarrow> client_call list" where
  "new_client_calls st st' = drop (length (client_calls st)) (client_calls st')"

definition new_sent :: "bot_state \<Rightarrow> bot_state \<Rightarrow> (int \<times> pystr) list" where
  "new_sent st st' = drop (length (sent st)) (sent st')"

text \<open>
  One line of the listing of several matches: the position, the summary and the first eight
  code points of the identifier.
\<close>

definition several_line :: "nat \<Rightarrow> api_event \<Rightarrow> pystr" where
  "several_line k ev =
     py_str k @ several_item_dot @ summary_of ev @ several_item_id @ take 8 (ev_id ev)
     @ several_item_end"

section \<open>A concrete world and concrete requests\<close>

text \<open>
  A small world on which the handlers can be run: the threshold and the duration are the
  defaults of \<^verbatim>\<open>config.py\<close>; the library functions are tables that know the one start time
  \<^verbatim>\<open>2025-11-27T15:00:00+03:00\<close>, the date \<^verbatim>\<open>2025-11-27\<close>, and the lower case of the Latin and
  the Russian letters; the calendar holds two events on that date.
\<close>

definition lower_cp :: "nat \<Rightarrow> nat" where
  "lower_cp c = (if (65 \<le> c \<and> c \<le> 90) \<or> (1040 \<le> c \<and> c \<le> 1071) then c + 32 else c)"

(* "2025-11-27T15:00:00+03:00" *)
definition example_start :: pystr where
  "example_start = [50, 48, 50, 53, 45, 49, 49, 45, 50, 55, 84, 49, 53, 58, 48, 48, 58, 48, 48,
    43, 48, 51, 58, 48, 48]"

(* "2025-11-27T16:00:00+03:00" *)
definition example_end :: pystr where
  "example_end = [50, 48, 50, 53, 45, 49, 49, 45, 50, 55, 84, 49, 54, 58, 48, 48, 58, 48, 48,
    43, 48, 51, 58, 48, 48]"

(* "2025-11-27" *)
definition example_date :: pystr where
  "example_date = [50, 48, 50, 53, 45, 49, 49, 45, 50, 55]"

definition example_start_dt :: datetime where
  "example_start_dt = \<lparr>ticks = 63899852400000000, tzinfo = Some (FixedOffset 180)\<rparr>"

definition example_end_dt :: datetime where
  "example_end_dt = \<lparr>ticks = 63899856000000000, tzinfo = Some (FixedOffset 180)\<rparr>"

(* id "abcdefghijkl", summary "Vstrecha s Vadimom" *)
definition example_event_1 :: api_event where
  "example_event_1 =
     \<lparr>ev_id = [97, 98, 99, 100, 101, 102, 103, 104, 105, 106, 107, 108],
      ev_summary = Some [1042, 1089, 1090, 1088, 1077, 1095, 1072, 32, 1089, 32, 1042, 1072,
                         1076, 1080, 1084, 1086, 1084],
      ev_start_dateTime = Some example_start, ev_start_date = None, ev_htmlLink = None\<rparr>"

(* id "e1", summary "Vstrecha" *)
definition example_event_2 :: api_event where
  "example_event_2 =
     \<lparr>ev_id = [101, 49], ev_summary = Some [1042, 1089, 1090, 1088, 1077, 1095, 1072],
      ev_start_dateTime = None, ev_start_date = Some example_date, ev_htmlLink = None\<rparr>"

definition example_world :: world where
  "example_world =
     \<lparr>confidence_threshold = 4 / 5,
      default_duration_min = 60,
      timezone = [69, 117, 114, 111, 112, 101, 47, 77, 111, 115, 99, 111, 119],
      parse_user_message = (\<lambda>m. None),
      events_insert = (\<lambda>body. Some \<lparr>ev_id = [101, 49], ev_summary = Some (body_summary body),
                                      ev_start_dateTime = Some (body_start_dateTime body),
                                      ev_start_date = None, ev_htmlLink = None\<rparr>),
      events_list = (\<lambda>time_min time_max. Some [example_event_1, example_event_2]),
      events_delete = (\<lambda>eid. True),
      now = example_start_dt,
      str_lower = map lower_cp,
      fromisoformat = (\<lambda>s. if s = example_start then Some example_start_dt else None),
      strptime = (\<lambda>s f. if s = example_date \<and> f = fmt_date
                          then Some \<lparr>ticks = 63899798400000000, tzinfo = None\<rparr> else None),
      strftime = (\<lambda>dt f. if f = fmt_date then example_date else []),
      isoformat = (\<lambda>dt. if dt = example_start_dt then example_start
                         else if dt = example_end_dt then example_end else []),
      zone_known = (\<lambda>name. True)\<rparr>"

definition example_state :: bot_state where
  "example_state =
     \<lparr>clarification_context = (\<lambda>user_id. None), sent = [], client_calls = [], api_calls = []\<rparr>"

definition no_slots :: SlotsModel where
  "no_slots =
     \<lparr>title = None, start = None, end_time = None, date = None, participants = None,
      description = None, location = None, event_id = None\<rparr>"

definition response :: "intent \<Rightarrow> real \<Rightarrow> SlotsModel \<Rightarrow> LLMResponseModel" where
  "response i c s =
     \<lparr>intent = i, confidence = c, slots = s, clarify = \<lparr>needed = False, questions = []\<rparr>\<rparr>"

(* questions "Vo skol'ko?" and "S kem?" *)
definition example_questions :: "pystr list" where
  "example_questions =
     [[1042, 1086, 32, 1089, 1082, 1086, 1083, 1100, 1082, 1086, 63],
      [1057, 32, 1082, 1077, 1084, 63]]"

definition asking_response :: "pystr list \<Rightarrow> LLMResponseModel" where
  "asking_response qs =
     \<lparr>intent = Create, confidence = 9 / 10, slots = no_slots,
      clarify = \<lparr>needed = True, questions = qs\<rparr>\<rparr>"

(* "Vadim", "Oleg", "vadim@example.com", "Vstrecha" *)
definition example_vadim :: pystr where
  "example_vadim = [1042, 1072, 1076, 1080, 1084]"

definition example_oleg :: pystr where
  "example_oleg = [1054, 1083, 1077, 1075]"

definition example_mail :: pystr where
  "example_mail = [118, 97, 100, 105, 109, 64, 101, 120, 97, 109, 112, 108, 101, 46, 99, 111, 109]"

definition example_title :: pystr where
  "example_title = [1042, 1089, 1090, 1088, 1077, 1095, 1072]"

text \<open>
  The state of user 7 after a classification as \<^verbatim>\<open>unknown\<close> with confidence 0.5: the
  confirmation prompt has been sent and the awaiting-confirmation state is stored.
\<close>

definition pending_unknown :: bot_state where
  "pending_unknown =
     reply_text (set_context example_state 7 (awaiting_confirmation Unknown no_slots)) 7
       (format_confirmation example_world (response Unknown (1 / 2) no_slots) @ confirm_suffix)"

text \<open>
  \<^verbatim>\<open>config.py\<close>, line 32: the duration is the integer of the environment variable, 60 when
  the variable is not set.
\<close>

definition DEFAULT_EVENT_DURATION_MIN :: "int option \<Rightarrow> int" where
  "DEFAULT_EVENT_DURATION_MIN env = (case env of None \<Rightarrow> 60 | Some n \<Rightarrow> n)"

section \<open>How the handlers change the state\<close>

lemma reply_text_simps [simp]:
  "clarification_context (reply_text st u m) = clarification_context st"
  "sent (reply_text st u m) = sent st @ [(u, m)]"
  "client_calls (reply_text st u m) = client_calls st"
  "api_calls (reply_text st u m) = api_calls st"
  by (simp_all add: reply_text_def)

lemma set_context_simps [simp]:
  "clarification_context (set_context st u cd) = (clarification_context st)(u \<mapsto> cd)"
  "sent (set_context st u cd) = sent st"
  "client_calls (set_context st u cd) = client_calls st"
  "api_calls (set_context st u cd) = api_calls st"
  by (simp_all add: set_context_def)

lemma del_context_simps [simp]:
  "clarification_context (del_context st u) = (clarification_context st)(u := None)"
  "sent (del_context st u) = sent st"
  "client_calls (del_context st u) = client_calls st"
  "api_calls (del_context st u) = api_calls st"
  by (simp_all add: del_context_def)

lemma create_event_state:
  assumes "create_event w st t s e d l ps = (res, st1)"
  shows "clarification_context st1 = clarification_context st"
    and "sent st1 = sent st"
    and "client_calls st1 = client_calls st @ [CreateEvent t s e d l ps]"
  using assms by (auto simp: create_event_def Let_def split: sum.splits)

lemma list_events_state:
  assumes "list_events w st d = (evs, st1)"
  shows "clarification_context st1 = clarification_context st"
    and "sent st1 = sent st"
    and "client_calls st1 = client_calls st @ [ListEventsOn d]"
    and "\<exists>a b. api_calls st1 = api_calls st \<or> api_calls st1 = api_calls st @ [ApiList a b]"
  using assms by (auto simp: list_events_def Let_def split: sum.splits option.splits)

lemma delete_event_state:
  assumes "delete_event w st eid = (ok, st1)"
  shows "clarification_context st1 = clarification_context st"
    and "sent st1 = sent st"
    and "client_calls st1 = client_calls st @ [DeleteEvent eid]"
    and "api_calls st1 = api_calls st @ [ApiDelete eid]"
    and "ok = events_delete w eid"
  using assms by (auto simp: delete_event_def)

lemma find_events_state:
  assumes "find_events_by_title_and_date w st t d = (evs, st1)"
  shows "clarification_context st1 = clarification_context st"
    and "sent st1 = sent st"
    and "client_calls st1 = client_calls st @ [ListEventsOn d]"
    and "\<exists>a b. api_calls st1 = api_calls st \<or> api_calls st1 = api_calls st @ [ApiList a b]"
  using assms list_events_state[of w st d]
  by (auto simp: find_events_by_title_and_date_def split: prod.splits)

lemma handle_create_context [simp]:
  "clarification_context (handle_create w st u r) = clarification_context st"
  by (auto simp: handle_create_def Let_def split: prod.splits option.splits dest: create_event_state)

lemma handle_list_context [simp]:
  "clarification_context (handle_list w st u r) = clarification_context st"
  by (auto simp: handle_list_def Let_def split: prod.splits dest: list_events_state)

lemma handle_delete_by_id:
  assumes "truthy (event_id (slots r))"
  shows "handle_delete w st u r =
           reply_text (snd (delete_event w st (sv (event_id (slots r))))) u
             (if events_delete w (sv (event_id (slots r))) then msg_deleted else msg_delete_failed)"
  using assms by (simp add: handle_delete_def delete_event_def Let_def)

lemma handle_delete_no_title:
  assumes "\<not> truthy (event_id (slots r))" and "\<not> truthy (title (slots r))"
  shows "handle_delete w st u r = reply_text st u msg_delete_need_title"
  using assms by (simp add: handle_delete_def Let_def)

lemma handle_delete_search:
  assumes "\<not> truthy (event_id (slots r))" and "truthy (title (slots r))"
    and "find_events_by_title_and_date w st (sv (title (slots r))) (delete_date w (slots r))
           = (m, st1)"
  shows "handle_delete w st u r =
           (case m of
              [] \<Rightarrow> reply_text st1 u
                     (not_found_head @ sv (title (slots r)) @ not_found_on
                      @ format_date_for_user w (delete_date w (slots r)) @ full_stop)
            | [event] \<Rightarrow> reply_text (set_context st1 u (awaiting_delete_confirmation (ev_id event)))
                          u (found_message w event)
            | _ \<Rightarrow> reply_text st1 u
                    (several_head @ sv (title (slots r)) @ several_head_end
                     @ several_lines 1 m @ several_tail))"
  using assms by (simp add: handle_delete_def awaiting_delete_confirmation_def Let_def split: list.splits)

lemma handle_delete_context:
  "clarification_context (handle_delete w st u r) = clarification_context st \<or>
   (\<exists>eid. clarification_context (handle_delete w st u r) =
            (clarification_context st)(u \<mapsto> awaiting_delete_confirmation eid))"
proof (cases "truthy (event_id (slots r))")
  case True
  then show ?thesis by (simp add: handle_delete_by_id delete_event_def)
next
  case no_id: False
  show ?thesis
  proof (cases "truthy (title (slots r))")
    case False
    with no_id show ?thesis by (simp add: handle_delete_no_title)
  next
    case True
    obtain m st1 where f: "find_events_by_title_and_date w st (sv (title (slots r)))
        (delete_date w (slots r)) = (m, st1)" by (cases "find_events_by_title_and_date w st (sv (title (slots r)))
        (delete_date w (slots r))")
    from find_events_state(1)[OF f] show ?thesis
      by (auto simp: handle_delete_search[OF no_id True f] split: list.splits)
  qed
qed

lemma handle_create_sent:
  "\<exists>m. sent (handle_create w st u r) = sent st @ [(u, m)] \<and>
       (\<exists>c cs. m = c # cs \<and> c \<noteq> 1071)"
  by (auto simp: handle_create_def Let_def created_message_def
      msg_create_validation_def msg_create_failed_def created_head_def
      split: prod.splits option.splits dest: create_event_state)

lemma handle_list_sent:
  "\<exists>m. sent (handle_list w st u r) = sent st @ [(u, m)] \<and>
       (\<exists>c cs. m = c # cs \<and> c \<noteq> 1071)"
  by (auto simp: handle_list_def Let_def msg_need_date_def no_events_head_def events_head_def
      split: prod.splits dest: list_events_state)

lemma handle_delete_sent:
  "\<exists>m. sent (handle_delete w st u r) = sent st @ [(u, m)] \<and>
       (\<exists>c cs. m = c # cs \<and> c \<noteq> 1071)"
proof (cases "truthy (event_id (slots r))")
  case True
  then show ?thesis
    by (simp add: handle_delete_by_id delete_event_def msg_deleted_def msg_delete_failed_def)
next
  case no_id: False
  show ?thesis
  proof (cases "truthy (title (slots r))")
    case False
    with no_id show ?thesis by (simp add: handle_delete_no_title msg_delete_need_title_def)
  next
    case True
    obtain m st1 where f: "find_events_by_title_and_date w st (sv (title (slots r)))
        (delete_date w (slots r)) = (m, st1)"
      by (cases "find_events_by_title_and_date w st (sv (title (slots r)))
        (delete_date w (slots r))")
    from find_events_state(2)[OF f] show ?thesis
      by (auto simp: handle_delete_search[OF no_id True f] not_found_head_def
          found_message_def found_head_def several_head_def split: list.splits)
  qed
qed

lemma dispatch_sent:
  "\<exists>m. sent (dispatch w st u r) = sent st @ [(u, m)] \<and>
       (\<exists>c cs. m = c # cs \<and> c \<noteq> 1071)"
  using handle_create_sent[of w st u r] handle_list_sent[of w st u r]
    handle_delete_sent[of w st u r]
  by (cases "intent r") (simp_all add: dispatch_def msg_unknown_help_def)

lemma py_join_head: "\<exists>cs. py_join sep ((c # x) # xs) = c # cs"
  by (cases xs) simp_all

lemma format_confirmation_head:
  "\<exists>cs. format_confirmation w r @ confirm_suffix = 1071 # cs"
proof -
  obtain x xs where "format_confirmation w r = py_join nl ((1071 # x) # xs)"
    by (simp add: format_confirmation_def Let_def confirm_head_def)
  then show ?thesis using py_join_head[of nl 1071 x xs] by auto
qed

lemma found_message_asks: "\<exists>p. found_message w ev = p @ delete_question"
  by (simp add: found_message_def split: option.splits)

lemma handle_delete_search_calls:
  assumes "\<not> truthy (event_id (slots r))" and "truthy (title (slots r))"
  shows "new_client_calls st (handle_delete w st u r)
           = [ListEventsOn (delete_date w (slots r))]"
    and "\<exists>a b. new_api_calls st (handle_delete w st u r) = [] \<or>
               new_api_calls st (handle_delete w st u r) = [ApiList a b]"
proof -
  obtain m st1 where f: "find_events_by_title_and_date w st (sv (title (slots r)))
      (delete_date w (slots r)) = (m, st1)"
    by (cases "find_events_by_title_and_date w st (sv (title (slots r)))
      (delete_date w (slots r))")
  from find_events_state(3)[OF f]
  show "new_client_calls st (handle_delete w st u r) = [ListEventsOn (delete_date w (slots r))]"
    by (auto simp: handle_delete_search[OF assms f] new_client_calls_def split: list.splits)
  from find_events_state(4)[OF f]
  show "\<exists>a b. new_api_calls st (handle_delete w st u r) = [] \<or>
               new_api_calls st (handle_delete w st u r) = [ApiList a b]"
    by (auto simp: handle_delete_search[OF assms f] new_api_calls_def split: list.splits)
qed

lemma example_search_vadim:
  "fst (find_events_by_title_and_date example_world example_state
          [1042, 1072, 1076, 1080, 1084] example_date) = [example_event_1]"
  by (simp add: find_events_by_title_and_date_def list_events_def example_world_def
      get_timezone_def Let_def example_event_1_def example_event_2_def lower_cp_def sv_def
      split: prod.splits)

lemma make_SlotsModel_no_slots [simp]: "make_SlotsModel w no_slots = Inr no_slots"
  by (simp add: make_SlotsModel_def validate_datetime_def no_slots_def)

lemma confirmation_yes_dispatches:
  assumes "clarification_context st u = Some (awaiting_confirmation i s)"
    and "make_SlotsModel w s = Inr s"
    and "normalized w (py_strip text) \<in> set affirmative"
    and "i \<noteq> Unknown"
  shows "handle_message w st u text = Inr (dispatch w (del_context st u) u (response i 1 s))"
  using assms
  by (cases i)
     (simp_all add: handle_message_def handle_clarification_response_def normalized_def
        awaiting_confirmation_def dispatch_def response_def)

lemma confirmation_no_asks_again:
  assumes "clarification_context st u = Some (awaiting_confirmation i s)"
    and "normalized w (py_strip text) \<in> set negative"
  shows "handle_message w st u text = Inr (reply_text (del_context st u) u msg_rephrase)"
proof -
  have "normalized w (py_strip text) \<notin> set affirmative"
    using assms(2) by (auto simp: affirmative_def negative_def)
  with assms show ?thesis
    by (simp add: handle_message_def handle_clarification_response_def normalized_def
        awaiting_confirmation_def)
qed

lemma collect_participants_attendees:
  "fst (collect_participants every ps attendees d) = attendees @ filter (py_in [64]) ps"
  by (induction ps arbitrary: attendees d) simp_all

lemma parse_example_start [simp]:
  "parse_datetime example_world example_start = Inr example_start_dt"
  by (simp add: parse_datetime_def example_world_def example_start_def replace_Z_def
      example_start_dt_def)

lemma handle_create_api_calls:
  assumes "truthy (title (slots r))" and "truthy (start (slots r))"
  shows "new_api_calls st (handle_create w st u r) =
           (case build_event_body w (sv (title (slots r))) (sv (start (slots r)))
                   (end_time (slots r)) (description (slots r)) (location (slots r))
                   (participants (slots r)) of
              Inl err \<Rightarrow> []
            | Inr body \<Rightarrow> [ApiInsert body])"
  using assms
  by (auto simp: handle_create_def Let_def create_event_def new_api_calls_def
      split: sum.splits option.splits)

lemma build_event_body_times:
  assumes "build_event_body w t s e d l ps = Inr body"
  shows "\<exists>start_dt end_dt.
           parse_datetime w s = Inr start_dt \<and>
           (if truthy e then parse_datetime w (sv e)
            else add_minutes start_dt (default_duration_min w)) = Inr end_dt \<and>
           body_start_dateTime body = isoformat w start_dt \<and>
           body_end_dateTime body = isoformat w end_dt"
  using assms
  by (auto simp: build_event_body_def split: sum.splits prod.splits if_splits)

lemma build_event_body_succeeds:
  assumes "parse_datetime w s = Inr start_dt"
    and "(if truthy e then parse_datetime w (sv e)
          else add_minutes start_dt (default_duration_min w)) = Inr end_dt"
  shows "\<exists>body. build_event_body w t s e d l ps = Inr body"
  using assms
  by (auto simp: build_event_body_def split: sum.splits prod.splits if_splits)

lemma add_minutes_Inr:
  "add_minutes dt m = Inr dt' \<longleftrightarrow>
     0 \<le> ticks dt + m * 60000000 \<and> ticks dt + m * 60000000 \<le> max_ticks \<and>
     dt' = dt\<lparr>ticks := ticks dt + m * 60000000\<rparr>"
  by (auto simp: add_minutes_def Let_def)

lemma several_lines_enumerates:
  "several_lines i m =
     concat (map (\<lambda>(k, ev). several_line k ev) (zip [i ..< i + length m] m))"
proof (induction m arbitrary: i)
  case Nil
  then show ?case by simp
next
  case (Cons ev m)
  have "[i ..< i + length (ev # m)] = i # [Suc i ..< Suc i + length m]"
    by (simp add: upt_rec)
  then show ?case using Cons.IH[of "Suc i"] by (simp add: several_line_def)
qed

lemma fresh_message:
  assumes "clarification_context st u = None"
  shows "handle_message w st u text =
           (case parse_user_message w (py_strip text) of
              None \<Rightarrow> Inr (reply_text st u msg_llm_error)
            | Some r \<Rightarrow> process_llm_response w st u r)"
  using assms by (simp add: handle_message_def)

lemma example_search_title:
  "fst (find_events_by_title_and_date example_world example_state example_title example_date)
     = [example_event_1, example_event_2]"
  by (simp add: find_events_by_title_and_date_def list_events_def example_world_def
      get_timezone_def Let_def example_event_1_def example_event_2_def lower_cp_def sv_def
      example_title_def split: prod.splits)

lemma dispatch_context_questions:
  assumes "clarification_context st u = None"
    and "clarification_context (dispatch w st u r) u = Some cd"
  shows "cd_questions cd = None \<and> cd_current_question_index cd = None"
  using assms handle_delete_context[of w st u r]
  by (cases "intent r") (auto simp: dispatch_def awaiting_delete_confirmation_def)

section \<open>The claims\<close>

text \<open>
  C1. A fresh intent result that asks for no clarification, for a user with no pending
  state: the engine stores the awaiting-confirmation state and sends the yes/no confirmation
  prompt exactly when the confidence is strictly below the threshold. Below the threshold
  nothing else happens in the turn: no calendar method is called, no request reaches the
  calendar, the prompt is the only reply. At or above the threshold (equality included) the
  result is that of the direct dispatch.
\<close>

theorem confirmation_iff_below_threshold:
  assumes "\<not> needed (clarify r)" and "clarification_context st user_id = None"
  shows
    "(confidence r < confidence_threshold w \<longrightarrow>
        process_llm_response w st user_id r =
          Inr (reply_text
                 (set_context st user_id (awaiting_confirmation (intent r) (slots r)))
                 user_id (format_confirmation w r @ confirm_suffix)))
     \<and> (\<not> confidence r < confidence_threshold w \<longrightarrow>
          process_llm_response w st user_id r = Inr (dispatch w st user_id r))
     \<and> ((\<exists>st'. process_llm_response w st user_id r = Inr st' \<and>
                clarification_context st' user_id =
                  Some (awaiting_confirmation (intent r) (slots r)))
          \<longleftrightarrow> confidence r < confidence_threshold w)
     \<and> ((\<exists>st'. process_llm_response w st user_id r = Inr st' \<and>
                (user_id, format_confirmation w r @ confirm_suffix) \<in> set (new_sent st st'))
          \<longleftrightarrow> confidence r < confidence_threshold w)
     \<and> (confidence r < confidence_threshold w \<longrightarrow>
          (\<forall>st'. process_llm_response w st user_id r = Inr st' \<longrightarrow>
             new_client_calls st st' = [] \<and> new_api_calls st st' = [] \<and>
             new_sent st st' = [(user_id, format_confirmation w r @ confirm_suffix)]))"
proof -
  let ?P = "confidence r < confidence_threshold w"
  let ?prompt = "format_confirmation w r @ confirm_suffix"
  let ?st2 = "reply_text (set_context st user_id (awaiting_confirmation (intent r) (slots r)))
                 user_id ?prompt"
  have below: "?P \<Longrightarrow> process_llm_response w st user_id r = Inr ?st2"
    using assms(1) by (simp add: process_llm_response_def awaiting_confirmation_def)
  have above: "\<not> ?P \<Longrightarrow> process_llm_response w st user_id r = Inr (dispatch w st user_id r)"
    using assms(1) by (simp add: process_llm_response_def dispatch_def)
  have no_state: "clarification_context (dispatch w st user_id r) user_id
      \<noteq> Some (awaiting_confirmation (intent r) (slots r))"
    using assms(2) handle_delete_context[of w st user_id r]
    by (cases "intent r")
       (auto simp: dispatch_def awaiting_confirmation_def awaiting_delete_confirmation_def)
  have no_prompt: "(user_id, ?prompt) \<notin> set (new_sent st (dispatch w st user_id r))"
    using dispatch_sent[of w st user_id r] format_confirmation_head[of w r]
    by (auto simp: new_sent_def)
  have c1: "?P \<longrightarrow> process_llm_response w st user_id r = Inr ?st2"
    using below by blast
  have c2: "\<not> ?P \<longrightarrow> process_llm_response w st user_id r = Inr (dispatch w st user_id r)"
    using above by blast
  have c3: "(\<exists>st'. process_llm_response w st user_id r = Inr st' \<and>
                clarification_context st' user_id =
                  Some (awaiting_confirmation (intent r) (slots r))) \<longleftrightarrow> ?P"
  proof (cases ?P)
    case True
    then show ?thesis using below by simp
  next
    case False
    then show ?thesis using above no_state by simp
  qed
  have c4: "(\<exists>st'. process_llm_response w st user_id r = Inr st' \<and>
                (user_id, ?prompt) \<in> set (new_sent st st')) \<longleftrightarrow> ?P"
  proof (cases ?P)
    case True
    then show ?thesis using below by (simp add: new_sent_def)
  next
    case False
    then show ?thesis using above no_prompt by simp
  qed
  have c5: "?P \<longrightarrow> (\<forall>st'. process_llm_response w st user_id r = Inr st' \<longrightarrow>
             new_client_calls st st' = [] \<and> new_api_calls st st' = [] \<and>
             new_sent st st' = [(user_id, ?prompt)])"
    using below by (auto simp: new_sent_def new_client_calls_def new_api_calls_def)
  from c1 c2 c3 c4 c5 show ?thesis by blast
qed

theorem confirmation_iff_below_threshold_witness:
  "\<not> needed (clarify (response Unknown (4 / 5) no_slots)) \<and>
   clarification_context example_state 7 = None \<and>
   confidence (response Unknown (4 / 5) no_slots) = confidence_threshold example_world \<and>
   process_llm_response example_world example_state 7 (response Unknown (4 / 5) no_slots) =
     Inr (reply_text example_state 7 msg_unknown_help)"
  using confirmation_iff_below_threshold
          [of "response Unknown (4 / 5) no_slots" example_state 7 example_world]
  by (simp add: response_def example_state_def example_world_def dispatch_def)

text \<open>
  C2. A user holds the awaiting-delete-confirmation state with the event identifier \<open>E\<close>
  (an identifier is a non-empty string: line 136 tests the stored value for truth before it
  deletes). A reply that is \<^verbatim>\<open>da\<close> after trimming, lowercasing and trimming calls
  \<^verbatim>\<open>delete_event\<close> once, with \<open>E\<close>, which sends one delete request for \<open>E\<close>; one reply
  reports the outcome; afterwards the user has no pending state, whether the request
  succeeded or failed, and the state of every other user is as before.
\<close>

theorem confirmed_delete_runs_once:
  assumes "clarification_context st user_id = Some cd"
    and "cd_waiting_delete_confirmation cd = Some True"
    and "cd_event_id cd = Some E" and "E \<noteq> []"
    and "normalized w (py_strip text) = [1076, 1072]"
  shows "\<exists>st'. handle_message w st user_id text = Inr st' \<and>
           new_client_calls st st' = [DeleteEvent E] \<and>
           new_api_calls st st' = [ApiDelete E] \<and>
           new_sent st st' =
             [(user_id, if events_delete w E then msg_deleted else msg_delete_failed)] \<and>
           clarification_context st' = (clarification_context st)(user_id := None) \<and>
           clarification_context st' user_id = None"
  using assms
  by (simp add: handle_message_def handle_clarification_response_def normalized_def
      affirmative_def truthy_def sv_def delete_event_def new_client_calls_def
      new_api_calls_def new_sent_def)

theorem confirmed_delete_runs_once_witness:
  "clarification_context
     (set_context example_state 7 (awaiting_delete_confirmation [101, 49])) 7 =
     Some (awaiting_delete_confirmation [101, 49]) \<and>
   cd_waiting_delete_confirmation (awaiting_delete_confirmation [101, 49]) = Some True \<and>
   cd_event_id (awaiting_delete_confirmation [101, 49]) = Some [101, 49] \<and>
   [101, 49] \<noteq> ([] :: pystr) \<and>
   normalized example_world (py_strip [32, 1044, 1072, 32]) = [1076, 1072] \<and>
   (\<exists>st'. handle_message example_world
            (set_context example_state 7 (awaiting_delete_confirmation [101, 49])) 7
            [32, 1044, 1072, 32] = Inr st' \<and>
          new_api_calls (set_context example_state 7 (awaiting_delete_confirmation [101, 49]))
            st' = [ApiDelete [101, 49]] \<and>
          clarification_context st' 7 = None)"
proof -
  have n: "normalized example_world (py_strip [32, 1044, 1072, 32]) = [1076, 1072]"
    by (simp add: normalized_def py_strip_def py_isspace_def example_world_def lower_cp_def)
  have c: "clarification_context
     (set_context example_state 7 (awaiting_delete_confirmation [101, 49])) 7 =
     Some (awaiting_delete_confirmation [101, 49])" by simp
  have f: "cd_waiting_delete_confirmation (awaiting_delete_confirmation [101, 49]) = Some True"
    by (simp add: awaiting_delete_confirmation_def)
  have e: "cd_event_id (awaiting_delete_confirmation [101, 49]) = Some [101, 49]"
    by (simp add: awaiting_delete_confirmation_def)
  have ne: "[101, 49] \<noteq> ([] :: pystr)" by simp
  from confirmed_delete_runs_once[OF c f e ne n] n c f e ne show ?thesis by blast
qed

text \<open>
  C3. A delete request is resolved by title search when its \<^verbatim>\<open>event_id\<close> slot is absent and
  its \<^verbatim>\<open>title\<close> slot is present (a slot is present when it holds a non-empty string: the
  source tests \<^verbatim>\<open>if slots.event_id:\<close> and \<^verbatim>\<open>if not slots.title:\<close>). Such a request never
  deletes in the same turn, neither through \<^verbatim>\<open>delete_event\<close> nor on the calendar; when the
  search finds exactly one event the handler stores the awaiting-delete-confirmation state
  for that event and its one reply ends with the yes/no question. A request whose
  \<^verbatim>\<open>event_id\<close> slot is present deletes at once, and stores nothing.
\<close>

theorem delete_by_title_asks_delete_by_id_runs:
  "(\<not> truthy (event_id (slots r)) \<and> truthy (title (slots r)) \<longrightarrow>
      (\<forall>e. DeleteEvent e \<notin> set (new_client_calls st (handle_delete w st user_id r))) \<and>
      (\<forall>e. ApiDelete e \<notin> set (new_api_calls st (handle_delete w st user_id r))) \<and>
      (\<forall>ev st1.
         find_events_by_title_and_date w st (sv (title (slots r))) (delete_date w (slots r))
           = ([ev], st1) \<longrightarrow>
         handle_delete w st user_id r =
           reply_text (set_context st1 user_id (awaiting_delete_confirmation (ev_id ev)))
             user_id (found_message w ev) \<and>
         clarification_context (handle_delete w st user_id r) user_id =
           Some (awaiting_delete_confirmation (ev_id ev)) \<and>
         new_sent st (handle_delete w st user_id r) = [(user_id, found_message w ev)] \<and>
         (\<exists>p. found_message w ev = p @ delete_question)))
   \<and> (truthy (event_id (slots r)) \<longrightarrow>
        new_client_calls st (handle_delete w st user_id r)
          = [DeleteEvent (sv (event_id (slots r)))] \<and>
        new_api_calls st (handle_delete w st user_id r)
          = [ApiDelete (sv (event_id (slots r)))] \<and>
        clarification_context (handle_delete w st user_id r) = clarification_context st)"
proof -
  have by_title: "(\<forall>e. DeleteEvent e \<notin> set (new_client_calls st (handle_delete w st user_id r))) \<and>
      (\<forall>e. ApiDelete e \<notin> set (new_api_calls st (handle_delete w st user_id r)))"
    if "\<not> truthy (event_id (slots r))" and "truthy (title (slots r))"
    using handle_delete_search_calls[OF that, of st w user_id] by auto
  have one: "handle_delete w st user_id r =
           reply_text (set_context st1 user_id (awaiting_delete_confirmation (ev_id ev)))
             user_id (found_message w ev) \<and>
         clarification_context (handle_delete w st user_id r) user_id =
           Some (awaiting_delete_confirmation (ev_id ev)) \<and>
         new_sent st (handle_delete w st user_id r) = [(user_id, found_message w ev)] \<and>
         (\<exists>p. found_message w ev = p @ delete_question)"
    if "\<not> truthy (event_id (slots r))" and "truthy (title (slots r))"
      and f: "find_events_by_title_and_date w st (sv (title (slots r)))
                (delete_date w (slots r)) = ([ev], st1)"
    for ev st1
    using find_events_state(2)[OF f] found_message_asks[of w ev]
    by (simp add: handle_delete_search[OF that] new_sent_def)
  have by_id: "new_client_calls st (handle_delete w st user_id r)
          = [DeleteEvent (sv (event_id (slots r)))] \<and>
        new_api_calls st (handle_delete w st user_id r)
          = [ApiDelete (sv (event_id (slots r)))] \<and>
        clarification_context (handle_delete w st user_id r) = clarification_context st"
    if "truthy (event_id (slots r))"
    using that
    by (simp add: handle_delete_by_id delete_event_def new_client_calls_def new_api_calls_def)
  from by_title one by_id show ?thesis by blast
qed

theorem delete_by_title_asks_delete_by_id_runs_witness:
  "(\<not> truthy (event_id (slots (response Delete 1
        (no_slots\<lparr>title := Some [1042, 1072, 1076, 1080, 1084], date := Some example_date\<rparr>))))
    \<and> truthy (title (slots (response Delete 1
        (no_slots\<lparr>title := Some [1042, 1072, 1076, 1080, 1084], date := Some example_date\<rparr>))))
    \<and> clarification_context
        (handle_delete example_world example_state 7
           (response Delete 1
              (no_slots\<lparr>title := Some [1042, 1072, 1076, 1080, 1084],
                         date := Some example_date\<rparr>))) 7
        = Some (awaiting_delete_confirmation (ev_id example_event_1))
    \<and> (\<forall>e. ApiDelete e \<notin> set (new_api_calls example_state
          (handle_delete example_world example_state 7
             (response Delete 1
                (no_slots\<lparr>title := Some [1042, 1072, 1076, 1080, 1084],
                           date := Some example_date\<rparr>))))))
   \<and> (truthy (event_id (slots (response Delete 1 (no_slots\<lparr>event_id := Some [101, 49]\<rparr>))))
      \<and> new_api_calls example_state
          (handle_delete example_world example_state 7
             (response Delete 1 (no_slots\<lparr>event_id := Some [101, 49]\<rparr>)))
        = [ApiDelete [101, 49]])"
proof -
  let ?r = "response Delete 1
      (no_slots\<lparr>title := Some [1042, 1072, 1076, 1080, 1084], date := Some example_date\<rparr>)"
  let ?q = "response Delete 1 (no_slots\<lparr>event_id := Some [101, 49]\<rparr>)"
  have a: "\<not> truthy (event_id (slots ?r))" and b: "truthy (title (slots ?r))"
    by (simp_all add: response_def no_slots_def truthy_def)
  have t: "sv (title (slots ?r)) = [1042, 1072, 1076, 1080, 1084]"
    and d: "delete_date example_world (slots ?r) = example_date"
    by (simp_all add: response_def no_slots_def sv_def delete_date_def target_date_of_def
        truthy_def example_date_def)
  obtain st1 where f: "find_events_by_title_and_date example_world example_state
      (sv (title (slots ?r))) (delete_date example_world (slots ?r)) = ([example_event_1], st1)"
    using example_search_vadim unfolding t d
    by (cases "find_events_by_title_and_date example_world example_state
          [1042, 1072, 1076, 1080, 1084] example_date") simp
  have c: "truthy (event_id (slots ?q))"
    by (simp add: response_def no_slots_def truthy_def)
  have s: "sv (event_id (slots ?q)) = [101, 49]"
    by (simp add: response_def no_slots_def sv_def)
  from delete_by_title_asks_delete_by_id_runs[of ?r example_state example_world 7]
    delete_by_title_asks_delete_by_id_runs[of ?q example_state example_world 7]
    a b c f s
  show ?thesis by (metis (no_types, lifting))
qed

text \<open>
  C4. A fresh intent result asks for clarification and has at least one question:
  \<^verbatim>\<open>_process_llm_response\<close> tests \<^verbatim>\<open>clarify.needed and clarify.questions\<close>. The engine then
  sends the first question, as its only reply and without any calendar call, and stores for
  the user the awaiting-clarification state with the intent, the slots, the whole sequence
  of questions and the cursor 0. The schema accepts \<^verbatim>\<open>needed = true\<close> with an empty
  sequence, and for such a result nothing of this happens: in the run at the end, an
  \<^verbatim>\<open>unknown\<close> intent of confidence 0.5 with \<^verbatim>\<open>needed = true\<close> and no questions gets the
  confirmation prompt and the awaiting-confirmation state.
\<close>

theorem clarification_starts_at_first_question:
  assumes "needed (clarify r)" and "questions (clarify r) = q # qs"
  shows "process_llm_response w st user_id r =
           Inr (reply_text
                  (set_context st user_id
                     (awaiting_clarification (intent r) (slots r) (q # qs) 0))
                  user_id q)
         \<and> (\<forall>st'. process_llm_response w st user_id r = Inr st' \<longrightarrow>
               new_sent st st' = [(user_id, q)] \<and>
               clarification_context st' user_id =
                 Some (awaiting_clarification (intent r) (slots r) (questions (clarify r)) 0) \<and>
               new_client_calls st st' = [] \<and> new_api_calls st st' = [])"
  using assms
  by (auto simp: process_llm_response_def awaiting_clarification_def new_sent_def
      new_client_calls_def new_api_calls_def)

theorem clarification_starts_at_first_question_witness:
  "needed (clarify (asking_response example_questions)) \<and>
   questions (clarify (asking_response example_questions))
     = [1042, 1086, 32, 1089, 1082, 1086, 1083, 1100, 1082, 1086, 63]
       # [[1057, 32, 1082, 1077, 1084, 63]] \<and>
   process_llm_response example_world example_state 7 (asking_response example_questions) =
     Inr (reply_text
            (set_context example_state 7
               (awaiting_clarification Create no_slots example_questions 0))
            7 [1042, 1086, 32, 1089, 1082, 1086, 1083, 1100, 1082, 1086, 63])"
proof -
  have a: "needed (clarify (asking_response example_questions))"
    by (simp add: asking_response_def)
  have b: "questions (clarify (asking_response example_questions))
     = [1042, 1086, 32, 1089, 1082, 1086, 1083, 1100, 1082, 1086, 63]
       # [[1057, 32, 1082, 1077, 1084, 63]]"
    by (simp add: asking_response_def example_questions_def)
  have c: "intent (asking_response example_questions) = Create"
    and d: "slots (asking_response example_questions) = no_slots"
    by (simp_all add: asking_response_def)
  have e: "example_questions = [1042, 1086, 32, 1089, 1082, 1086, 1083, 1100, 1082, 1086, 63]
       # [[1057, 32, 1082, 1077, 1084, 63]]"
    by (simp add: example_questions_def)
  from clarification_starts_at_first_question[OF a b, of example_world example_state 7] a b
  show ?thesis unfolding c d e [symmetric] by blast
qed

theorem clarification_without_questions_counterexample:
  "needed (clarify ((response Unknown (1 / 2) no_slots)
                      \<lparr>clarify := \<lparr>needed = True, questions = []\<rparr>\<rparr>))
   \<and> process_llm_response example_world example_state 7
         ((response Unknown (1 / 2) no_slots)\<lparr>clarify := \<lparr>needed = True, questions = []\<rparr>\<rparr>)
       = Inr pending_unknown
   \<and> new_sent example_state pending_unknown
       = [(7, format_confirmation example_world (response Unknown (1 / 2) no_slots)
              @ confirm_suffix)]
   \<and> clarification_context pending_unknown 7 = Some (awaiting_confirmation Unknown no_slots)
   \<and> clarification_context pending_unknown 7
       \<noteq> Some (awaiting_clarification Unknown no_slots [] 0)"
proof -
  have low: "(1 / 2 :: real) < confidence_threshold example_world"
    by (simp add: example_world_def)
  have f: "format_confirmation example_world
             ((response Unknown (1 / 2) no_slots)
                \<lparr>clarify := \<lparr>needed = True, questions = []\<rparr>\<rparr>)
           = format_confirmation example_world (response Unknown (1 / 2) no_slots)"
    by (simp add: format_confirmation_def response_def)
  have p: "process_llm_response example_world example_state 7
         ((response Unknown (1 / 2) no_slots)\<lparr>clarify := \<lparr>needed = True, questions = []\<rparr>\<rparr>)
       = Inr pending_unknown"
    using low unfolding process_llm_response_def f
    by (simp add: response_def pending_unknown_def awaiting_confirmation_def)
  have s: "new_sent example_state pending_unknown
       = [(7, format_confirmation example_world (response Unknown (1 / 2) no_slots)
              @ confirm_suffix)]"
    by (simp add: new_sent_def pending_unknown_def example_state_def)
  have c: "clarification_context pending_unknown 7
      = Some (awaiting_confirmation Unknown no_slots)"
    by (simp add: pending_unknown_def)
  have d: "awaiting_confirmation Unknown no_slots \<noteq> awaiting_clarification Unknown no_slots [] 0"
    by (simp add: awaiting_confirmation_def awaiting_clarification_def)
  from p s c d show ?thesis by simp
qed

text \<open>
  C5. A user holds the awaiting-confirmation state. An affirmative reply rebuilds the intent
  result with confidence 1, clears the state and runs the handler of a create, list or delete
  intent (\<open>confirmation_yes_dispatches\<close>), and a negative reply clears the state and asks
  to restate the request (\<open>confirmation_no_asks_again\<close>). For the stored intent
  \<^verbatim>\<open>unknown\<close> the chain of tests at lines 175-180 has no branch: the run below stores that
  state through the confirmation prompt, answers \<^verbatim>\<open>da\<close>, and the handler clears the state
  and sends nothing, where the direct dispatch of the same intent sends the help message.
\<close>

theorem confirmed_unknown_intent_gets_no_reply:
  "process_llm_response example_world example_state 7 (response Unknown (1 / 2) no_slots)
     = Inr pending_unknown
   \<and> clarification_context pending_unknown 7 = Some (awaiting_confirmation Unknown no_slots)
   \<and> handle_message example_world pending_unknown 7 [1076, 1072]
     = Inr (del_context pending_unknown 7)
   \<and> new_sent pending_unknown (del_context pending_unknown 7) = []
   \<and> new_sent (del_context pending_unknown 7)
        (dispatch example_world (del_context pending_unknown 7) 7 (response Unknown 1 no_slots))
     = [(7, msg_unknown_help)]"
proof -
  have low: "(1 / 2 :: real) < confidence_threshold example_world"
    by (simp add: example_world_def)
  have p: "process_llm_response example_world example_state 7 (response Unknown (1 / 2) no_slots)
     = Inr pending_unknown"
    using low
    by (simp add: process_llm_response_def response_def pending_unknown_def
        awaiting_confirmation_def)
  have c: "clarification_context pending_unknown 7
      = Some (awaiting_confirmation Unknown no_slots)"
    by (simp add: pending_unknown_def)
  have n: "py_strip (str_lower example_world (py_strip [1076, 1072])) = [1076, 1072]"
    by (simp add: py_strip_def py_isspace_def example_world_def lower_cp_def)
  have h: "handle_message example_world pending_unknown 7 [1076, 1072]
     = Inr (del_context pending_unknown 7)"
    using c n
    by (simp add: handle_message_def handle_clarification_response_def
        awaiting_confirmation_def affirmative_def)
  have s: "new_sent pending_unknown (del_context pending_unknown 7) = []"
    by (simp add: new_sent_def)
  have d: "new_sent (del_context pending_unknown 7)
        (dispatch example_world (del_context pending_unknown 7) 7 (response Unknown 1 no_slots))
     = [(7, msg_unknown_help)]"
    by (simp add: new_sent_def dispatch_def response_def)
  from p c h s d show ?thesis by blast
qed

text \<open>
  C6. A create dispatch in which the title or the start is missing (\<^verbatim>\<open>None\<close> or empty:
  the test is \<^verbatim>\<open>not slots.title or not slots.start\<close>) sends the validation message that
  names the title and the start time, and neither calls the calendar client nor reaches
  the calendar. A create dispatch with both present calls \<^verbatim>\<open>create_event\<close> once, with the
  slots as they are.
\<close>

theorem create_requires_title_and_start:
  "(\<not> truthy (title (slots r)) \<or> \<not> truthy (start (slots r)) \<longrightarrow>
      handle_create w st user_id r = reply_text st user_id msg_create_validation \<and>
      new_sent st (handle_create w st user_id r) = [(user_id, msg_create_validation)] \<and>
      new_client_calls st (handle_create w st user_id r) = [] \<and>
      new_api_calls st (handle_create w st user_id r) = [])
   \<and> (truthy (title (slots r)) \<and> truthy (start (slots r)) \<longrightarrow>
        new_client_calls st (handle_create w st user_id r) =
          [CreateEvent (sv (title (slots r))) (sv (start (slots r))) (end_time (slots r))
             (description (slots r)) (location (slots r)) (participants (slots r))])"
proof -
  have missing: "handle_create w st user_id r = reply_text st user_id msg_create_validation"
    if "\<not> truthy (title (slots r)) \<or> \<not> truthy (start (slots r))"
    using that by (auto simp: handle_create_def Let_def)
  have present: "new_client_calls st (handle_create w st user_id r) =
          [CreateEvent (sv (title (slots r))) (sv (start (slots r))) (end_time (slots r))
             (description (slots r)) (location (slots r)) (participants (slots r))]"
    if "truthy (title (slots r))" and "truthy (start (slots r))"
    using that
    by (auto simp: handle_create_def Let_def new_client_calls_def
        split: prod.splits option.splits dest: create_event_state(3))
  show ?thesis
    using missing present
    by (auto simp: new_sent_def new_client_calls_def new_api_calls_def)
qed

theorem create_requires_title_and_start_witness:
  "(\<not> truthy (title (slots (response Create 1 (no_slots\<lparr>start := Some example_start\<rparr>)))) \<and>
    handle_create example_world example_state 7
        (response Create 1 (no_slots\<lparr>start := Some example_start\<rparr>))
      = reply_text example_state 7 msg_create_validation)
   \<and> (truthy (title (slots (response Create 1
          (no_slots\<lparr>title := Some example_title, start := Some example_start\<rparr>)))) \<and>
      truthy (start (slots (response Create 1
          (no_slots\<lparr>title := Some example_title, start := Some example_start\<rparr>)))) \<and>
      new_client_calls example_state
        (handle_create example_world example_state 7
           (response Create 1
              (no_slots\<lparr>title := Some example_title, start := Some example_start\<rparr>)))
        = [CreateEvent example_title example_start None None None None])"
proof -
  let ?a = "response Create 1 (no_slots\<lparr>start := Some example_start\<rparr>)"
  let ?b = "response Create 1
      (no_slots\<lparr>title := Some example_title, start := Some example_start\<rparr>)"
  have a: "\<not> truthy (title (slots ?a))"
    by (simp add: response_def no_slots_def truthy_def)
  have b: "truthy (title (slots ?b))" "truthy (start (slots ?b))"
    by (simp_all add: response_def no_slots_def truthy_def example_title_def example_start_def)
  have v: "sv (title (slots ?b)) = example_title" "sv (start (slots ?b)) = example_start"
    "end_time (slots ?b) = None" "description (slots ?b) = None" "location (slots ?b) = None"
    "participants (slots ?b) = None"
    by (simp_all add: response_def no_slots_def sv_def)
  from create_requires_title_and_start[of ?a example_world example_state 7]
    create_requires_title_and_start[of ?b example_world example_state 7] a b
  show ?thesis unfolding v by blast
qed

text \<open>
  C7. In \<^verbatim>\<open>create_event\<close> every participant that contains \<^verbatim>\<open>@\<close> becomes an attendee
  (\<open>collect_participants_attendees\<close>). The description does not get the plain names
  once: each participant without \<^verbatim>\<open>@\<close> appends the label followed by the join of the
  whole list. In the two runs below, on the title \<^verbatim>\<open>Vstrecha\<close> at the example start,
  the participants \<^verbatim>\<open>Vadim, Oleg\<close> put the labelled list into the description twice, and
  the participants \<^verbatim>\<open>Vadim, vadim@example.com\<close> put the address into the description as
  well as into the attendees.
\<close>

theorem plain_names_are_joined_once_per_name:
  "new_api_calls example_state
     (snd (create_event example_world example_state example_title example_start None None None
             (Some [example_vadim, example_oleg])))
     = [ApiInsert
          \<lparr>body_summary = example_title,
           body_start_dateTime = example_start, body_start_timeZone = timezone example_world,
           body_end_dateTime = example_end, body_end_timeZone = timezone example_world,
           body_description =
             Some (description_participants @ example_vadim @ comma_sep @ example_oleg
                   @ description_participants_nl @ example_vadim @ comma_sep @ example_oleg),
           body_location = None, body_attendees = None\<rparr>]
   \<and> new_api_calls example_state
     (snd (create_event example_world example_state example_title example_start None None None
             (Some [example_vadim, example_mail])))
     = [ApiInsert
          \<lparr>body_summary = example_title,
           body_start_dateTime = example_start, body_start_timeZone = timezone example_world,
           body_end_dateTime = example_end, body_end_timeZone = timezone example_world,
           body_description =
             Some (description_participants @ example_vadim @ comma_sep @ example_mail),
           body_location = None, body_attendees = Some [example_mail]\<rparr>]"
proof -
  have e: "add_minutes example_start_dt (default_duration_min example_world) = Inr example_end_dt"
    by (simp add: add_minutes_def example_start_dt_def example_end_dt_def example_world_def
        max_ticks_def)
  have i: "isoformat example_world example_start_dt = example_start"
    "isoformat example_world example_end_dt = example_end"
    by (simp_all add: example_world_def example_start_dt_def example_end_dt_def)
  have v: "\<not> py_in [64] example_vadim" "\<not> py_in [64] example_oleg" "py_in [64] example_mail"
    by (simp_all add: example_vadim_def example_oleg_def example_mail_def)
  have n: "description_participants \<noteq> []"
    by (simp add: description_participants_def)
  have a: "collect_participants [example_vadim, example_oleg] [example_vadim, example_oleg] [] None
    = ([], Some (description_participants @ example_vadim @ comma_sep @ example_oleg
                   @ description_participants_nl @ example_vadim @ comma_sep @ example_oleg))"
    using v n by (simp add: truthy_def sv_def)
  have b: "collect_participants [example_vadim, example_mail] [example_vadim, example_mail] [] None
    = ([example_mail], Some (description_participants @ example_vadim @ comma_sep @ example_mail))"
    using v n by (simp add: truthy_def sv_def)
  have c: "build_event_body example_world example_title example_start None None None
             (Some [example_vadim, example_oleg])
     = Inr \<lparr>body_summary = example_title,
           body_start_dateTime = example_start, body_start_timeZone = timezone example_world,
           body_end_dateTime = example_end, body_end_timeZone = timezone example_world,
           body_description =
             Some (description_participants @ example_vadim @ comma_sep @ example_oleg
                   @ description_participants_nl @ example_vadim @ comma_sep @ example_oleg),
           body_location = None, body_attendees = None\<rparr>"
    unfolding build_event_body_def plist_def option.case a
    using n by (simp add: e i truthy_def)
  have d: "build_event_body example_world example_title example_start None None None
             (Some [example_vadim, example_mail])
     = Inr \<lparr>body_summary = example_title,
           body_start_dateTime = example_start, body_start_timeZone = timezone example_world,
           body_end_dateTime = example_end, body_end_timeZone = timezone example_world,
           body_description =
             Some (description_participants @ example_vadim @ comma_sep @ example_mail),
           body_location = None, body_attendees = Some [example_mail]\<rparr>"
    unfolding build_event_body_def plist_def option.case b
    using n by (simp add: e i truthy_def)
  show ?thesis
    by (simp add: create_event_def c d new_api_calls_def)
qed

text \<open>
  C8. A create dispatch with the title and the start present. When the end slot is absent,
  every event body that reaches the calendar has as its end the start plus the configured
  duration (same \<^verbatim>\<open>tzinfo\<close>, wall clock moved by that many minutes), and a body does reach
  the calendar whenever the start parses and that sum is a date Python can hold. When the
  end slot is present, the end of every body sent is the parsed end slot, and a body is sent
  whenever both parse. The duration is 60 minutes when the configuration does not set it.
\<close>

theorem default_end_is_start_plus_duration:
  assumes "truthy (title (slots r))" and "truthy (start (slots r))"
  shows
    "(\<not> truthy (end_time (slots r)) \<longrightarrow>
        (\<forall>body. ApiInsert body \<in> set (new_api_calls st (handle_create w st user_id r)) \<longrightarrow>
           (\<exists>start_dt. parse_datetime w (sv (start (slots r))) = Inr start_dt \<and>
              body_start_dateTime body = isoformat w start_dt \<and>
              body_end_dateTime body =
                isoformat w
                  (start_dt\<lparr>ticks := ticks start_dt + default_duration_min w * 60000000\<rparr>)))
        \<and> (\<forall>start_dt. parse_datetime w (sv (start (slots r))) = Inr start_dt \<and>
              0 \<le> ticks start_dt + default_duration_min w * 60000000 \<and>
              ticks start_dt + default_duration_min w * 60000000 \<le> max_ticks \<longrightarrow>
              (\<exists>body. new_api_calls st (handle_create w st user_id r) = [ApiInsert body])))
     \<and> (truthy (end_time (slots r)) \<longrightarrow>
        (\<forall>body. ApiInsert body \<in> set (new_api_calls st (handle_create w st user_id r)) \<longrightarrow>
           (\<exists>end_dt. parse_datetime w (sv (end_time (slots r))) = Inr end_dt \<and>
              body_end_dateTime body = isoformat w end_dt))
        \<and> (\<forall>start_dt end_dt. parse_datetime w (sv (start (slots r))) = Inr start_dt \<and>
              parse_datetime w (sv (end_time (slots r))) = Inr end_dt \<longrightarrow>
              (\<exists>body. new_api_calls st (handle_create w st user_id r) = [ApiInsert body])))
     \<and> DEFAULT_EVENT_DURATION_MIN None = 60"
proof -
  let ?build = "build_event_body w (sv (title (slots r))) (sv (start (slots r)))
      (end_time (slots r)) (description (slots r)) (location (slots r)) (participants (slots r))"
  let ?calls = "new_api_calls st (handle_create w st user_id r)"
  note calls = handle_create_api_calls[OF assms, of st w user_id]
  have sent_body: "?build = Inr body" if "ApiInsert body \<in> set ?calls" for body
    using that unfolding calls by (cases ?build) simp_all
  have absent_1: "\<exists>start_dt. parse_datetime w (sv (start (slots r))) = Inr start_dt \<and>
              body_start_dateTime body = isoformat w start_dt \<and>
              body_end_dateTime body =
                isoformat w
                  (start_dt\<lparr>ticks := ticks start_dt + default_duration_min w * 60000000\<rparr>)"
    if "\<not> truthy (end_time (slots r))" and "ApiInsert body \<in> set ?calls" for body
    using build_event_body_times[OF sent_body[OF that(2)]] that(1)
    by (auto simp: add_minutes_Inr)
  have absent_2: "\<exists>body. ?calls = [ApiInsert body]"
    if "\<not> truthy (end_time (slots r))"
      and "parse_datetime w (sv (start (slots r))) = Inr start_dt"
      and "0 \<le> ticks start_dt + default_duration_min w * 60000000"
      and "ticks start_dt + default_duration_min w * 60000000 \<le> max_ticks" for start_dt
  proof -
    have "(if truthy (end_time (slots r)) then parse_datetime w (sv (end_time (slots r)))
           else add_minutes start_dt (default_duration_min w))
          = Inr (start_dt\<lparr>ticks := ticks start_dt + default_duration_min w * 60000000\<rparr>)"
      using that by (simp add: add_minutes_Inr)
    from build_event_body_succeeds[OF that(2) this]
    obtain body where "?build = Inr body" by blast
    then show ?thesis unfolding calls by simp
  qed
  have present_1: "\<exists>end_dt. parse_datetime w (sv (end_time (slots r))) = Inr end_dt \<and>
              body_end_dateTime body = isoformat w end_dt"
    if "truthy (end_time (slots r))" and "ApiInsert body \<in> set ?calls" for body
    using build_event_body_times[OF sent_body[OF that(2)]] that(1) by auto
  have present_2: "\<exists>body. ?calls = [ApiInsert body]"
    if "truthy (end_time (slots r))"
      and "parse_datetime w (sv (start (slots r))) = Inr start_dt"
      and "parse_datetime w (sv (end_time (slots r))) = Inr end_dt" for start_dt end_dt
  proof -
    have "(if truthy (end_time (slots r)) then parse_datetime w (sv (end_time (slots r)))
           else add_minutes start_dt (default_duration_min w)) = Inr end_dt"
      using that by simp
    from build_event_body_succeeds[OF that(2) this]
    obtain body where "?build = Inr body" by blast
    then show ?thesis unfolding calls by simp
  qed
  have sixty: "DEFAULT_EVENT_DURATION_MIN None = 60"
    by (simp add: DEFAULT_EVENT_DURATION_MIN_def)
  from absent_1 absent_2 present_1 present_2 sixty show ?thesis by blast
qed

theorem default_end_is_start_plus_duration_witness:
  "truthy (title (slots (response Create (19 / 20)
      (no_slots\<lparr>title := Some example_title, start := Some example_start\<rparr>)))) \<and>
   truthy (start (slots (response Create (19 / 20)
      (no_slots\<lparr>title := Some example_title, start := Some example_start\<rparr>)))) \<and>
   \<not> truthy (end_time (slots (response Create (19 / 20)
      (no_slots\<lparr>title := Some example_title, start := Some example_start\<rparr>)))) \<and>
   default_duration_min example_world = DEFAULT_EVENT_DURATION_MIN None \<and>
   (\<exists>body. new_api_calls example_state
             (handle_create example_world example_state 7
                (response Create (19 / 20)
                   (no_slots\<lparr>title := Some example_title, start := Some example_start\<rparr>)))
             = [ApiInsert body] \<and>
           body_start_dateTime body = example_start \<and>
           body_end_dateTime body = example_end)"
proof -
  let ?r = "response Create (19 / 20)
      (no_slots\<lparr>title := Some example_title, start := Some example_start\<rparr>)"
  let ?calls = "new_api_calls example_state (handle_create example_world example_state 7 ?r)"
  have t: "truthy (title (slots ?r))" and s: "truthy (start (slots ?r))"
    and e: "\<not> truthy (end_time (slots ?r))"
    by (simp_all add: response_def no_slots_def truthy_def example_title_def example_start_def)
  have v: "sv (start (slots ?r)) = example_start"
    by (simp add: response_def no_slots_def sv_def)
  have d: "default_duration_min example_world = DEFAULT_EVENT_DURATION_MIN None"
    by (simp add: example_world_def DEFAULT_EVENT_DURATION_MIN_def)
  have p: "parse_datetime example_world (sv (start (slots ?r))) = Inr example_start_dt"
    unfolding v by simp
  have inside: "0 \<le> ticks example_start_dt + default_duration_min example_world * 60000000"
    "ticks example_start_dt + default_duration_min example_world * 60000000 \<le> max_ticks"
    by (simp_all add: example_start_dt_def example_world_def max_ticks_def)
  have later: "example_start_dt\<lparr>ticks := ticks example_start_dt
      + default_duration_min example_world * 60000000\<rparr> = example_end_dt"
    by (simp add: example_start_dt_def example_end_dt_def example_world_def)
  have iso: "isoformat example_world example_start_dt = example_start"
    "isoformat example_world example_end_dt = example_end"
    by (simp_all add: example_world_def example_start_dt_def example_end_dt_def)
  note main = default_end_is_start_plus_duration[OF t s, where w = example_world and st = example_state and user_id = 7]
  from main e p inside obtain body where b: "?calls = [ApiInsert body]" by blast
  then have "ApiInsert body \<in> set ?calls" by simp
  with main e obtain start_dt where
    "parse_datetime example_world (sv (start (slots ?r))) = Inr start_dt"
    "body_start_dateTime body = isoformat example_world start_dt"
    "body_end_dateTime body = isoformat example_world
       (start_dt\<lparr>ticks := ticks start_dt + default_duration_min example_world * 60000000\<rparr>)"
    by blast
  with p later iso have "body_start_dateTime body = example_start"
    "body_end_dateTime body = example_end" by simp_all
  with b t s e d show ?thesis by blast
qed

text \<open>
  C9. A delete request resolved by title search (no \<^verbatim>\<open>event_id\<close>, a title) whose search
  returns two or more events. The one reply is the heading with the title, then one line
  for each match in order, numbered from 1, with its summary and the first eight code
  points of its identifier, then the request to name an identifier. The handler leaves the
  stored contexts as they were, so for a user without a pending state the next message goes
  to the classifier as fresh input.
\<close>

theorem several_matches_are_listed_without_state:
  assumes "\<not> truthy (event_id (slots r))" and "truthy (title (slots r))"
    and "find_events_by_title_and_date w st (sv (title (slots r))) (delete_date w (slots r))
           = (m, st1)"
    and "2 \<le> length m"
  shows "new_sent st (handle_delete w st user_id r) =
           [(user_id,
             several_head @ sv (title (slots r)) @ several_head_end
             @ concat (map (\<lambda>(k, ev). several_line k ev) (zip [1 ..< 1 + length m] m))
             @ several_tail)]
         \<and> clarification_context (handle_delete w st user_id r) = clarification_context st
         \<and> (clarification_context st user_id = None \<longrightarrow>
              (\<forall>w' text.
                 handle_message w' (handle_delete w st user_id r) user_id text =
                   (case parse_user_message w' (py_strip text) of
                      None \<Rightarrow> Inr (reply_text (handle_delete w st user_id r) user_id
                                      msg_llm_error)
                    | Some r' \<Rightarrow>
                        process_llm_response w' (handle_delete w st user_id r) user_id r')))"
proof -
  obtain a b rest where m: "m = a # b # rest"
    using assms(4) by (cases m; cases "tl m") auto
  have h: "handle_delete w st user_id r =
      reply_text st1 user_id
        (several_head @ sv (title (slots r)) @ several_head_end
         @ several_lines 1 m @ several_tail)"
    by (simp add: handle_delete_search[OF assms(1-3)] m)
  have s: "new_sent st (handle_delete w st user_id r) =
           [(user_id,
             several_head @ sv (title (slots r)) @ several_head_end
             @ concat (map (\<lambda>(k, ev). several_line k ev) (zip [1 ..< 1 + length m] m))
             @ several_tail)]"
    unfolding h using find_events_state(2)[OF assms(3)]
    by (simp add: new_sent_def several_lines_enumerates)
  have c: "clarification_context (handle_delete w st user_id r) = clarification_context st"
    unfolding h using find_events_state(1)[OF assms(3)] by simp
  have f: "handle_message w' (handle_delete w st user_id r) user_id msg =
                   (case parse_user_message w' (py_strip msg) of
                      None \<Rightarrow> Inr (reply_text (handle_delete w st user_id r) user_id
                                      msg_llm_error)
                    | Some r' \<Rightarrow>
                        process_llm_response w' (handle_delete w st user_id r) user_id r')"
    if "clarification_context st user_id = None" for w' msg
    using that c by (simp add: fresh_message)
  from s c f show ?thesis by blast
qed

theorem several_matches_are_listed_without_state_witness:
  "\<not> truthy (event_id (slots (response Delete 1
        (no_slots\<lparr>title := Some example_title, date := Some example_date\<rparr>)))) \<and>
   truthy (title (slots (response Delete 1
        (no_slots\<lparr>title := Some example_title, date := Some example_date\<rparr>)))) \<and>
   fst (find_events_by_title_and_date example_world example_state example_title example_date)
     = [example_event_1, example_event_2] \<and>
   2 \<le> length [example_event_1, example_event_2] \<and>
   new_sent example_state
     (handle_delete example_world example_state 7
        (response Delete 1 (no_slots\<lparr>title := Some example_title, date := Some example_date\<rparr>)))
     = [(7, several_head @ example_title @ several_head_end
            @ several_line 1 example_event_1 @ several_line 2 example_event_2
            @ several_tail)] \<and>
   clarification_context
     (handle_delete example_world example_state 7
        (response Delete 1 (no_slots\<lparr>title := Some example_title, date := Some example_date\<rparr>)))
     7 = None"
proof -
  let ?r = "response Delete 1
      (no_slots\<lparr>title := Some example_title, date := Some example_date\<rparr>)"
  have a: "\<not> truthy (event_id (slots ?r))" and b: "truthy (title (slots ?r))"
    by (simp_all add: response_def no_slots_def truthy_def example_title_def)
  have t: "sv (title (slots ?r)) = example_title"
    and d: "delete_date example_world (slots ?r) = example_date"
    by (simp_all add: response_def no_slots_def sv_def delete_date_def target_date_of_def
        truthy_def example_date_def)
  obtain st1 where f: "find_events_by_title_and_date example_world example_state
      (sv (title (slots ?r))) (delete_date example_world (slots ?r))
      = ([example_event_1, example_event_2], st1)"
    using example_search_title unfolding t d
    by (cases "find_events_by_title_and_date example_world example_state
          example_title example_date") simp
  have two: "2 \<le> length [example_event_1, example_event_2]" by simp
  have z: "zip [1 ..< 1 + length [example_event_1, example_event_2]]
             [example_event_1, example_event_2]
           = [(1, example_event_1), (2, example_event_2)]"
    by (simp add: upt_rec)
  have n: "clarification_context example_state = (\<lambda>user_id. None)"
    by (simp add: example_state_def)
  from several_matches_are_listed_without_state
         [OF a b f two, where user_id = 7]
    a b example_search_title two
  show ?thesis unfolding z t n by simp
qed

text \<open>
  C10. A fresh intent result with \<^verbatim>\<open>needed\<close> true and no questions. The first test of
  \<^verbatim>\<open>_process_llm_response\<close> asks for a non-empty list as well, so the result is that of the
  confidence test and the dispatch, as if no clarification had been asked for; for a user
  without a pending state, whatever is stored afterwards holds no questions and no cursor.
  For every intent result whatsoever the handler returns a state: the read of the first
  question never raises.
\<close>

theorem empty_questions_fall_through:
  "(needed (clarify r) \<and> questions (clarify r) = [] \<longrightarrow>
      process_llm_response w st user_id r =
        (if confidence r < confidence_threshold w
         then Inr (reply_text
                     (set_context st user_id (awaiting_confirmation (intent r) (slots r)))
                     user_id (format_confirmation w r @ confirm_suffix))
         else Inr (dispatch w st user_id r))
      \<and> (clarification_context st user_id = None \<longrightarrow>
           (\<forall>st' cd. process_llm_response w st user_id r = Inr st' \<and>
                     clarification_context st' user_id = Some cd \<longrightarrow>
                     cd_questions cd = None \<and> cd_current_question_index cd = None)))
   \<and> (\<exists>st'. process_llm_response w st user_id r = Inr st')"
proof -
  have through: "process_llm_response w st user_id r =
        (if confidence r < confidence_threshold w
         then Inr (reply_text
                     (set_context st user_id (awaiting_confirmation (intent r) (slots r)))
                     user_id (format_confirmation w r @ confirm_suffix))
         else Inr (dispatch w st user_id r))"
    if "questions (clarify r) = []"
    using that by (simp add: process_llm_response_def awaiting_confirmation_def dispatch_def)
  have none: "cd_questions cd = None \<and> cd_current_question_index cd = None"
    if "questions (clarify r) = []" and "clarification_context st user_id = None"
      and "process_llm_response w st user_id r = Inr st'"
      and "clarification_context st' user_id = Some cd" for st' cd
  proof (cases "confidence r < confidence_threshold w")
    case True
    with that through show ?thesis by (auto simp: awaiting_confirmation_def)
  next
    case False
    with that through have "clarification_context (dispatch w st user_id r) user_id = Some cd"
      by auto
    from dispatch_context_questions[OF that(2) this] show ?thesis .
  qed
  have total: "\<exists>st'. process_llm_response w st user_id r = Inr st'"
    by (cases "questions (clarify r)") (simp_all add: process_llm_response_def)
  from through none total show ?thesis by blast
qed

theorem empty_questions_fall_through_witness:
  "needed (clarify (asking_response [])) \<and> questions (clarify (asking_response [])) = [] \<and>
   process_llm_response example_world example_state 7 (asking_response [])
     = Inr (reply_text example_state 7 msg_create_validation)"
proof -
  have a: "needed (clarify (asking_response []))"
    and b: "questions (clarify (asking_response [])) = []"
    and c: "\<not> confidence (asking_response []) < confidence_threshold example_world"
    and d: "dispatch example_world example_state 7 (asking_response [])
              = reply_text example_state 7 msg_create_validation"
    by (simp_all add: asking_response_def example_world_def dispatch_def handle_create_def
        no_slots_def truthy_def)
  from empty_questions_fall_through[of "asking_response []" example_world example_state 7]
    a b c d
  show ?thesis by simp
qed


end
